theory Spec2Isabelle
  imports Main "HOL-Library.AList"
begin

section \<open>Python values and errors\<close>

text \<open>
  The values the profile commands pass around: \<open>None\<close>, booleans, integers, strings,
  lists, dictionaries (insertion-ordered, as association lists) and builtin function
  objects such as \<open>id\<close>.
\<close>

datatype pyval =
    PyNone
  | PyBool bool
  | PyInt int
  | PyStr string
  | PyList "pyval list"
  | PyDict "(string \<times> pyval) list"
  | PyBuiltinFunction string

type_synonym pydict = "(string \<times> pyval) list"

text \<open>Python's truth value testing (\<open>bool(v)\<close>): a function object is always true.\<close>

fun truthy :: "pyval \<Rightarrow> bool" where
  "truthy PyNone = False"
| "truthy (PyBool b) = b"
| "truthy (PyInt n) = (n \<noteq> 0)"
| "truthy (PyStr s) = (s \<noteq> [])"
| "truthy (PyList xs) = (xs \<noteq> [])"
| "truthy (PyDict kvs) = (kvs \<noteq> [])"
| "truthy (PyBuiltinFunction f) = True"

text \<open>\<open>any(xs)\<close> on a list of values.\<close>

definition py_any :: "pyval list \<Rightarrow> bool" where
  "py_any xs = list_ex truthy xs"

text \<open>
  The errors of the program. \<open>CLIError\<close> is knack's; the others are the error kinds of
  the command framework. \<open>KeyError\<close> and \<open>AttributeError\<close> are Python's own.
\<close>

datatype error =
    CLIError string
  | MissingRequiredArgument string
  | UnknownArgument string
  | ParameterMissing string
  | UrlBuildError string
  | TransportError
  | RemoteApiError "string option" "string option"
  | DeserializationError
  | KeyError string
  | AttributeError string

subsection \<open>Dictionary operations\<close>

text \<open>\<open>d.get(k)\<close>, \<open>d.pop(k, default)\<close> and \<open>d[k] = v\<close> on an insertion-ordered dict.\<close>

definition dict_get :: "string \<Rightarrow> pydict \<Rightarrow> pyval" where
  "dict_get k d = (case map_of d k of None \<Rightarrow> PyNone | Some v \<Rightarrow> v)"

definition dict_pop :: "string \<Rightarrow> pyval \<Rightarrow> pydict \<Rightarrow> pyval \<times> pydict" where
  "dict_pop k dflt d =
     (case map_of d k of None \<Rightarrow> (dflt, d) | Some v \<Rightarrow> (v, AList.delete k d))"

definition dict_set :: "string \<Rightarrow> pyval \<Rightarrow> pydict \<Rightarrow> pydict" where
  "dict_set k v d = AList.update k v d"

section \<open>profile/custom.py\<close>

text \<open>
  \<open>sub['cloudName'] = sub.pop('environmentName', None)\<close>, the body of the loop over the
  subscriptions in \<open>list_subscriptions\<close> and in \<open>login\<close>. Each subscription is a dict of
  its own (they are read from the account store), so the in-place update of one entry
  is the update of that entry's value.
\<close>

definition rename_environment :: "pydict \<Rightarrow> pydict" where
  "rename_environment sub =
     (let (v, sub') = dict_pop ''environmentName'' PyNone sub
      in dict_set ''cloudName'' v sub')"

subsection \<open>list_subscriptions\<close>

text \<open>
  \<open>load_subscriptions\<close> (azure.cli.core.api) is the account store's lookup; it is a
  parameter here, applied to \<open>all_clouds\<close> and \<open>refresh\<close>. The two \<open>logger.warning\<close>
  calls write to the log only and are left out.
\<close>

definition list_subscriptions ::
  "(pyval \<Rightarrow> pyval \<Rightarrow> error + pydict list) \<Rightarrow> pyval \<Rightarrow> pyval \<Rightarrow> error + pydict list" where
  "list_subscriptions load_subscriptions all refresh =
     (case load_subscriptions all refresh of
        Inl e \<Rightarrow> Inl e
      | Inr loaded \<Rightarrow>
          (let subscriptions = map rename_environment loaded in
           if \<not> truthy all then
             (let enabled_ones =
                    filter (\<lambda>s. dict_get ''state'' s = PyStr ''Enabled'') subscriptions
              in if length enabled_ones \<noteq> length subscriptions
                 then Inr enabled_ones else Inr subscriptions)
           else Inr subscriptions))"

subsection \<open>set_active_subscription\<close>

text \<open>
  The calls a command makes on the \<open>Profile\<close> object, in the order it makes them. The
  profile itself (azure.cli.core._profile) is a collaborator: a record of what each of
  its methods returns.
\<close>

record profile_login_args =
  pl_interactive :: bool
  pl_username :: pyval
  pl_password :: pyval
  pl_is_service_principal :: pyval
  pl_tenant :: pyval
  pl_scopes :: pyval
  pl_use_device_code :: pyval
  pl_allow_no_subscriptions :: pyval
  pl_use_cert_sn_issuer :: pyval
  pl_show_progress :: bool

datatype profile_call =
    Profile_init
  | Call_set_active_subscription pyval
  | Call_login_in_cloud_shell
  | Call_login_with_managed_identity pyval pyval
  | Call_login profile_login_args

record profile =
  profile_set_active_subscription :: "pyval \<Rightarrow> error + unit"
  profile_login_in_cloud_shell :: "error + pydict list"
  profile_login_with_managed_identity :: "pyval \<Rightarrow> pyval \<Rightarrow> error + pydict list"
  profile_login :: "profile_login_args \<Rightarrow> error + pydict list"

text \<open>
  The guard of \<open>set_active_subscription\<close> tests the name \<open>id\<close>. The module defines no
  \<open>id\<close> and the function has no such parameter, so the name is Python's builtin
  function.
\<close>

definition set_active_subscription ::
  "profile \<Rightarrow> pyval \<Rightarrow> profile_call list \<times> (error + unit)" where
  "set_active_subscription prof subscription =
     (if \<not> truthy (PyBuiltinFunction ''id'')
      then ([Profile_init], Inl (CLIError ''Please provide subscription id or unique name.''))
      else ([Profile_init, Call_set_active_subscription subscription],
            profile_set_active_subscription prof subscription))"

subsection \<open>login\<close>

text \<open>
  What \<open>login\<close> reads from its surroundings: \<open>in_cloud_console()\<close>, the password prompt
  (\<open>None\<close> when \<open>prompt_pass\<close> raises \<open>NoTTYException\<close>), whether stdin and stdout are
  terminals, the configuration switch \<open>core.login_experience_v2\<close>,
  \<open>ServicePrincipalAuth.build_credential\<close> and the interactive \<open>SubscriptionSelector\<close>.
\<close>

record login_env =
  in_cloud_console :: bool
  prompt_pass :: "string option"
  stdin_isatty :: bool
  stdout_isatty :: bool
  login_experience_v2 :: bool
  build_credential :: "pyval \<Rightarrow> pyval \<Rightarrow> pyval \<Rightarrow> error + pyval"
  subscription_selector :: "pydict list \<Rightarrow> error + pydict"

text \<open>The keyword arguments of \<open>login\<close>.\<close>

record login_args =
  username :: pyval
  password :: pyval
  service_principal :: pyval
  tenant :: pyval
  allow_no_subscriptions :: pyval
  identity :: pyval
  use_device_code :: pyval
  use_cert_sn_issuer :: pyval
  scopes :: pyval
  client_assertion :: pyval

text \<open>\<open>_SUBSCRIPTION_ID\<close> of azure.cli.core._profile, the key of a subscription's id.\<close>

definition SUBSCRIPTION_ID :: string where
  "SUBSCRIPTION_ID = ''id''"

text \<open>
  The part of \<open>login\<close> after the argument check, from \<open>interactive = False\<close> on. The
  result is \<open>None\<close> for the bare \<open>return\<close> after an interactive selection. The
  warnings and the printed announcement write to the log and the terminal only and are
  left out.
\<close>

definition login_body ::
  "login_env \<Rightarrow> profile \<Rightarrow> login_args \<Rightarrow> profile_call list \<times> (error + pydict list option)" where
  "login_body env prof a =
     (if truthy (identity a) then
        (if in_cloud_console env
         then ([Profile_init, Call_login_in_cloud_shell],
               map_sum id Some (profile_login_in_cloud_shell prof))
         else ([Profile_init, Call_login_with_managed_identity (username a) (allow_no_subscriptions a)],
               map_sum id Some
                 (profile_login_with_managed_identity prof (username a) (allow_no_subscriptions a))))
      else
        (case (if truthy (username a) then
                 (if \<not> (truthy (password a) \<or> truthy (client_assertion a)) then
                    (case prompt_pass env of
                       None \<Rightarrow> Inl (CLIError
                         ''Please specify both username and password in non-interactive mode.'')
                     | Some p \<Rightarrow> Inr (False, PyStr p))
                  else Inr (False, password a))
               else Inr (True, password a)) of
           Inl e \<Rightarrow> ([Profile_init], Inl e)
         | Inr (interactive, password1) \<Rightarrow>
             (case (if truthy (service_principal a)
                    then build_credential env password1 (client_assertion a) (use_cert_sn_issuer a)
                    else Inr password1) of
                Inl e \<Rightarrow> ([Profile_init], Inl e)
              | Inr password2 \<Rightarrow>
                  (let select_subscription =
                         (interactive \<and> stdin_isatty env \<and> stdout_isatty env
                          \<and> login_experience_v2 env);
                       largs = \<lparr>pl_interactive = interactive, pl_username = username a,
                                pl_password = password2,
                                pl_is_service_principal = service_principal a,
                                pl_tenant = tenant a, pl_scopes = scopes a,
                                pl_use_device_code = use_device_code a,
                                pl_allow_no_subscriptions = allow_no_subscriptions a,
                                pl_use_cert_sn_issuer = use_cert_sn_issuer a,
                                pl_show_progress = select_subscription\<rparr>
                   in case profile_login prof largs of
                        Inl e \<Rightarrow> ([Profile_init, Call_login largs], Inl e)
                      | Inr subscriptions \<Rightarrow>
                          if select_subscription then
                            (case subscription_selector env subscriptions of
                               Inl e \<Rightarrow> ([Profile_init, Call_login largs], Inl e)
                             | Inr selected \<Rightarrow>
                                 (case map_of selected SUBSCRIPTION_ID of
                                    None \<Rightarrow> ([Profile_init, Call_login largs],
                                             Inl (KeyError SUBSCRIPTION_ID))
                                  | Some sid \<Rightarrow>
                                      ([Profile_init, Call_login largs,
                                        Call_set_active_subscription sid],
                                       map_sum id (\<lambda>_. None)
                                         (profile_set_active_subscription prof sid))))
                          else ([Profile_init, Call_login largs],
                                Inr (Some (map rename_environment subscriptions)))))))"

text \<open>\<open>login\<close>: the quick argument usage check, then the body.\<close>

definition login ::
  "login_env \<Rightarrow> profile \<Rightarrow> login_args \<Rightarrow> profile_call list \<times> (error + pydict list option)" where
  "login env prof a =
     (if py_any [password a, service_principal a, tenant a] \<and> truthy (identity a) then
        ([], Inl (CLIError ''usage error: '--identity' is not applicable with other arguments''))
      else if py_any [password a, service_principal a, username a, identity a]
              \<and> truthy (use_device_code a) then
        ([], Inl (CLIError
           ''usage error: '--use-device-code' is not applicable with other arguments''))
      else if truthy (use_cert_sn_issuer a) \<and> \<not> truthy (service_principal a) then
        ([], Inl (CLIError
           ''usage error: '--use-sn-issuer' is only applicable with a service principal''))
      else if truthy (service_principal a) \<and> \<not> truthy (username a) then
        ([], Inl (CLIError
           ''usage error: --service-principal --username NAME --password SECRET --tenant TENANT''))
      else login_body env prof a)"

section \<open>The command framework (azure.cli.core.aaz)\<close>

text \<open>
  The framework that the generated commands configure is not among the sources; what the
  command below needs of it is written from the specification, each such definition
  marked as modelled from the spec. The command's own declarations (its URL template,
  parameters, schemas, operation order and caches) are those of
  \<open>network/vnet/_check_ip_address.py\<close>.
\<close>

subsection \<open>JSON values and type schemas\<close>

text \<open>
  A decoded JSON value, which is also the shape of a command's result (nested mappings,
  sequences and scalars). Objects are insertion-ordered dicts. Numbers are integers here:
  floating point is not represented.
\<close>

datatype json =
    JNull
  | JBool bool
  | JInt int
  | JStr string
  | JArr "json list"
  | JObj "(string \<times> json) list"

text \<open>
  Modelled from the spec: the TypeSchema node, of kind Bool, Str, Int, Float, Any, List (one
  element schema, assigned to \<open>Element\<close> after the list type is constructed, hence
  optional) or Object (an ordered mapping from the logical field name to the field's
  \<open>serialized_name\<close>, when it has one, and its schema).
\<close>

datatype aaz_type =
    AAZBoolType
  | AAZStrType
  | AAZIntType
  | AAZFloatType
  | AAZAnyType
  | AAZListType "aaz_type option"
  | AAZObjectType "(string \<times> string option \<times> aaz_type) list"

text \<open>
  The wire name of a field: its \<open>serialized_name\<close>, or the logical name when none was
  given.
\<close>

definition wire_name :: "string \<Rightarrow> string option \<Rightarrow> string" where
  "wire_name name serialized_name = (case serialized_name of None \<Rightarrow> name | Some w \<Rightarrow> w)"

text \<open>
  Modelled from the spec: deserialization of a response body against a TypeSchema. An
  Object node maps each declared field from its wire name to its logical name, in
  declaration order; wire fields that are not declared are ignored; a declared field the
  body does not have is absent from the result. A List node deserializes each element
  against the element schema. A value of the wrong kind is a \<open>DeserializationError\<close>.
\<close>

function (sequential) deserialize :: "aaz_type \<Rightarrow> json \<Rightarrow> error + json"
  and deserialize_fields ::
    "(string \<times> string option \<times> aaz_type) list \<Rightarrow> (string \<times> json) list
       \<Rightarrow> error + (string \<times> json) list"
  and deserialize_elements :: "aaz_type \<Rightarrow> json list \<Rightarrow> error + json list" where
  "deserialize AAZBoolType j = (case j of JBool b \<Rightarrow> Inr (JBool b) | _ \<Rightarrow> Inl DeserializationError)"
| "deserialize AAZStrType j = (case j of JStr s \<Rightarrow> Inr (JStr s) | _ \<Rightarrow> Inl DeserializationError)"
| "deserialize AAZIntType j = (case j of JInt n \<Rightarrow> Inr (JInt n) | _ \<Rightarrow> Inl DeserializationError)"
| "deserialize AAZFloatType j = (case j of JInt n \<Rightarrow> Inr (JInt n) | _ \<Rightarrow> Inl DeserializationError)"
| "deserialize AAZAnyType j = Inr j"
| "deserialize (AAZListType None) j = Inl DeserializationError"
| "deserialize (AAZListType (Some t)) (JArr xs) =
     (case deserialize_elements t xs of Inl e \<Rightarrow> Inl e | Inr vs \<Rightarrow> Inr (JArr vs))"
| "deserialize (AAZListType (Some t)) j = Inl DeserializationError"
| "deserialize (AAZObjectType fs) (JObj kvs) =
     (case deserialize_fields fs kvs of Inl e \<Rightarrow> Inl e | Inr r \<Rightarrow> Inr (JObj r))"
| "deserialize (AAZObjectType fs) j = Inl DeserializationError"
| "deserialize_fields [] kvs = Inr []"
| "deserialize_fields ((name, serialized_name, t) # fs) kvs =
     (case map_of kvs (wire_name name serialized_name) of
        None \<Rightarrow> deserialize_fields fs kvs
      | Some v \<Rightarrow>
          (case deserialize t v of
             Inl e \<Rightarrow> Inl e
           | Inr v' \<Rightarrow>
               (case deserialize_fields fs kvs of
                  Inl e \<Rightarrow> Inl e
                | Inr r \<Rightarrow> Inr ((name, v') # r))))"
| "deserialize_elements t [] = Inr []"
| "deserialize_elements t (x # xs) =
     (case deserialize t x of
        Inl e \<Rightarrow> Inl e
      | Inr v \<Rightarrow>
          (case deserialize_elements t xs of Inl e \<Rightarrow> Inl e | Inr vs \<Rightarrow> Inr (v # vs)))"
  by pat_completeness auto

termination
  apply (relation "inv_image (less_than <*lex*> less_than)
      (\<lambda>x. case x of
          Inl (t, j) \<Rightarrow> (size t, 0)
        | Inr (Inl (fs, kvs)) \<Rightarrow>
            (size_list (size_prod (\<lambda>_. 0) (size_prod (\<lambda>_. 0) size)) fs, 0)
        | Inr (Inr (t, xs)) \<Rightarrow> (size t, Suc (length xs)))")
  apply auto
  done

text \<open>
  Modelled from the spec: flattening lifts the fields of the objects nested one level
  below the outermost Object up to the result root; on a collision of names the last
  declared field wins.
\<close>

definition client_flatten :: "json \<Rightarrow> json" where
  "client_flatten v =
     (case v of
        JObj kvs \<Rightarrow>
          JObj (foldl (\<lambda>acc (k, x).
                  case x of
                    JObj sub \<Rightarrow> foldl (\<lambda>acc' (k', x'). AList.update k' x' acc') acc sub
                  | _ \<Rightarrow> AList.update k x acc) [] kvs)
      | _ \<Rightarrow> v)"

text \<open>
  Modelled from the spec: \<open>deserialize_output(value, client_flatten=...)\<close>, the output
  step's formatting of a stored context variable.
\<close>

definition deserialize_output :: "json \<Rightarrow> bool \<Rightarrow> json" where
  "deserialize_output v flatten = (if flatten then client_flatten v else v)"

subsection \<open>Argument schema and validation\<close>

text \<open>
  Modelled from the spec: an argument specification, with its accepted option strings,
  required flag, help text, id-part marker and default value.
\<close>

record AAZArg =
  arg_options :: "string list"
  arg_required :: bool
  arg_help :: string
  arg_id_part :: "string option"
  arg_default :: "string option"

text \<open>
  \<open>AAZStrArg(options=..., help=..., required=..., id_part=...)\<close>.
\<close>

definition AAZStrArg :: "string list \<Rightarrow> string \<Rightarrow> bool \<Rightarrow> string option \<Rightarrow> AAZArg" where
  "AAZStrArg opts hlp req idp =
     \<lparr>arg_options = opts, arg_required = req, arg_help = hlp, arg_id_part = idp,
      arg_default = None\<rparr>"

text \<open>
  Modelled from the spec: an argument is matched when the raw mapping supplies one of its
  option strings; its value is the one supplied, or else its default.
\<close>

definition matched :: "AAZArg \<Rightarrow> (string \<times> string) list \<Rightarrow> bool" where
  "matched a raw = list_ex (\<lambda>(k, v). k \<in> set (arg_options a)) raw"

definition arg_value :: "AAZArg \<Rightarrow> (string \<times> string) list \<Rightarrow> string option" where
  "arg_value a raw =
     (case find (\<lambda>(k, v). k \<in> set (arg_options a)) raw of
        Some (k, v) \<Rightarrow> Some v
      | None \<Rightarrow> arg_default a)"

text \<open>
  Modelled from the spec: \<open>build\<close> checks every declared argument and every supplied
  option before it reports: a required argument that is not matched is a
  \<open>MissingRequiredArgument\<close> of its name, a supplied option that no argument accepts is
  an \<open>UnknownArgument\<close>, and the errors are returned together. Without errors the result
  holds exactly the declared arguments.
\<close>

definition build ::
  "(string \<times> AAZArg) list \<Rightarrow> (string \<times> string) list
     \<Rightarrow> error list + (string \<times> string option) list" where
  "build schema raw =
     (let missing = [MissingRequiredArgument n. (n, a) \<leftarrow> schema, arg_required a \<and> \<not> matched a raw];
          unknown = [UnknownArgument k. (k, v) \<leftarrow> raw,
                       \<not> list_ex (\<lambda>(n, a). k \<in> set (arg_options a)) schema]
      in if missing @ unknown = [] then Inr [(n, arg_value a raw). (n, a) \<leftarrow> schema]
         else Inl (missing @ unknown))"

subsection \<open>Execution context and request parameters\<close>

text \<open>
  Modelled from the spec: the per-invocation context, with the validated arguments
  (\<open>None\<close> for an unset one), the ambient subscription id and the variable store.
\<close>

record AAZCommandCtx =
  ctx_args :: "(string \<times> string option) list"
  ctx_subscription_id :: "string option"
  ctx_vars :: "(string \<times> json) list"

text \<open>
  \<open>ctx.args.<name>\<close>.
\<close>

definition get_arg :: "AAZCommandCtx \<Rightarrow> string \<Rightarrow> string option" where
  "get_arg ctx name = (case map_of (ctx_args ctx) name of Some v \<Rightarrow> v | None \<Rightarrow> None)"

text \<open>
  Sequencing of steps that may raise: the first error ends the sequence.
\<close>

definition bind_err :: "'e + 'a \<Rightarrow> ('a \<Rightarrow> 'e + 'b) \<Rightarrow> 'e + 'b" where
  "bind_err r f = (case r of Inl e \<Rightarrow> Inl e | Inr x \<Rightarrow> f x)"

text \<open>
  \<open>{**a, **b}\<close> on insertion-ordered dicts.
\<close>

definition dict_merge :: "('k \<times> 'v) list \<Rightarrow> ('k \<times> 'v) list \<Rightarrow> ('k \<times> 'v) list" where
  "dict_merge a b = foldl (\<lambda>d (k, v). AList.update k v d) a b"

text \<open>
  Modelled from the spec: a parameter with a value is serialized to its wire string (the
  values of this command are strings already); an optional parameter with no value is
  omitted; a required parameter with no value fails with \<open>ParameterMissing\<close>. URL, query
  and header parameters are serialized alike.
\<close>

definition serialize_param ::
  "string \<Rightarrow> string option \<Rightarrow> bool \<Rightarrow> error + (string \<times> string) list" where
  "serialize_param name v required =
     (case v of
        Some s \<Rightarrow> Inr [(name, s)]
      | None \<Rightarrow> if required then Inl (ParameterMissing name) else Inr [])"

definition serialize_url_param ::
  "string \<Rightarrow> string option \<Rightarrow> bool \<Rightarrow> error + (string \<times> string) list" where
  "serialize_url_param = serialize_param"

definition serialize_query_param ::
  "string \<Rightarrow> string option \<Rightarrow> bool \<Rightarrow> error + (string \<times> string) list" where
  "serialize_query_param = serialize_param"

definition serialize_header_param ::
  "string \<Rightarrow> string option \<Rightarrow> bool \<Rightarrow> error + (string \<times> string) list" where
  "serialize_header_param = serialize_param"

text \<open>
  Modelled from the spec: \<open>client.format_url\<close> substitutes every \<open>{placeholder}\<close> of the
  template by its parameter; a placeholder with no parameter (or one that is never
  closed) is a \<open>UrlBuildError\<close>. The second argument is the placeholder name read so far,
  reversed, when the scan is inside braces.
\<close>

fun format_url_aux :: "(string \<times> string) list \<Rightarrow> string option \<Rightarrow> string \<Rightarrow> error + string" where
  "format_url_aux ps None [] = Inr []"
| "format_url_aux ps (Some nm) [] = Inl (UrlBuildError (rev nm))"
| "format_url_aux ps None (c # cs) =
     (if c = CHR ''{'' then format_url_aux ps (Some []) cs
      else map_sum id ((#) c) (format_url_aux ps None cs))"
| "format_url_aux ps (Some nm) (c # cs) =
     (if c = CHR ''}'' then
        (case map_of ps (rev nm) of
           None \<Rightarrow> Inl (UrlBuildError (rev nm))
         | Some v \<Rightarrow> map_sum id ((@) v) (format_url_aux ps None cs))
      else format_url_aux ps (Some (c # nm)) cs)"

definition format_url :: "string \<Rightarrow> (string \<times> string) list \<Rightarrow> error + string" where
  "format_url template ps = format_url_aux ps None template"

section \<open>network/vnet/_check_ip_address.py\<close>

subsection \<open>The argument schema of CheckIpAddress\<close>

text \<open>
  The arguments \<open>name\<close> and \<open>ip_address\<close>.
\<close>

definition CheckIpAddress_arg_name :: AAZArg where
  "CheckIpAddress_arg_name =
     AAZStrArg [''-n'', ''--name''] ''The virtual network (VNet) name.'' True (Some ''name'')"

definition CheckIpAddress_arg_ip_address :: AAZArg where
  "CheckIpAddress_arg_ip_address =
     AAZStrArg [''--ip-address''] ''The private IP address to be verified.'' False None"

text \<open>
  The schema that \<open>_build_arguments_schema\<close> builds. \<open>AAZResourceGroupNameArg\<close> is the
  framework's declaration of the resource group argument, a parameter here; the command
  sets \<open>required=True\<close> on it.
\<close>

definition args_schema :: "AAZArg \<Rightarrow> (string \<times> AAZArg) list" where
  "args_schema AAZResourceGroupNameArg =
     [(''resource_group'', AAZResourceGroupNameArg\<lparr>arg_required := True\<rparr>),
      (''name'', CheckIpAddress_arg_name),
      (''ip_address'', CheckIpAddress_arg_ip_address)]"

subsection \<open>The operation VirtualNetworksCheckIPAddressAvailability\<close>

text \<open>
  The properties \<open>url_parameters\<close>, \<open>url\<close>, \<open>method\<close> (here \<open>http_method\<close>),
  \<open>query_parameters\<close> and
  \<open>header_parameters\<close> of the operation.
\<close>

definition url_parameters :: "AAZCommandCtx \<Rightarrow> error + (string \<times> string) list" where
  "url_parameters ctx =
     bind_err (serialize_url_param ''resourceGroupName'' (get_arg ctx ''resource_group'') True)
       (\<lambda>p1. bind_err (serialize_url_param ''subscriptionId'' (ctx_subscription_id ctx) True)
       (\<lambda>p2. bind_err (serialize_url_param ''virtualNetworkName'' (get_arg ctx ''name'') True)
       (\<lambda>p3. Inr (dict_merge (dict_merge p1 p2) p3))))"

definition url :: "AAZCommandCtx \<Rightarrow> error + string" where
  "url ctx =
     bind_err (url_parameters ctx)
       (format_url ''/subscriptions/{subscriptionId}/resourceGroups/{resourceGroupName}/providers/Microsoft.Network/virtualNetworks/{virtualNetworkName}/CheckIPAddressAvailability'')"

definition http_method :: string where
  "http_method = ''GET''"

definition query_parameters :: "AAZCommandCtx \<Rightarrow> error + (string \<times> string) list" where
  "query_parameters ctx =
     bind_err (serialize_query_param ''ipAddress'' (get_arg ctx ''ip_address'') False)
       (\<lambda>p1. bind_err (serialize_query_param ''api-version'' (Some ''2017-10-01'') True)
       (\<lambda>p2. Inr (dict_merge p1 p2)))"

definition header_parameters :: "AAZCommandCtx \<Rightarrow> error + (string \<times> string) list" where
  "header_parameters ctx =
     bind_err (serialize_header_param ''Accept'' (Some ''application/json'') False)
       (\<lambda>p1. Inr p1)"

text \<open>
  Modelled from the spec: a request carries method, URL, query and headers, and
  \<open>make_request\<close> builds it from the operation's properties.
\<close>

record request =
  req_method :: string
  req_url :: string
  req_query :: "(string \<times> string) list"
  req_headers :: "(string \<times> string) list"

definition make_request :: "AAZCommandCtx \<Rightarrow> error + request" where
  "make_request ctx =
     bind_err (url ctx)
       (\<lambda>u. bind_err (query_parameters ctx)
       (\<lambda>q. bind_err (header_parameters ctx)
       (\<lambda>h. Inr \<lparr>req_method = http_method, req_url = u, req_query = q, req_headers = h\<rparr>)))"

text \<open>
  The query parameters as they stand in the query string.
\<close>

fun query_string :: "(string \<times> string) list \<Rightarrow> string" where
  "query_string [] = []"
| "query_string [(k, v)] = k @ ''='' @ v"
| "query_string ((k, v) # rest) = k @ ''='' @ v @ ''&'' @ query_string rest"

text \<open>
  Modelled from the spec: a response carries a status code and a body; the body is taken
  as already decoded JSON, which \<open>deserialize_http_content\<close> returns.
\<close>

record response =
  status_code :: int
  body :: json

definition deserialize_http_content :: "response \<Rightarrow> json" where
  "deserialize_http_content resp = body resp"

text \<open>
  The schema that \<open>_build_schema_on_200\<close> builds: an object with the boolean
  \<open>available\<close> and the list of strings \<open>available_ip_addresses\<close>, serialized as
  \<open>availableIPAddresses\<close>.
\<close>

definition schema_on_200 :: aaz_type where
  "schema_on_200 =
     AAZObjectType
       [(''available'', None, AAZBoolType),
        (''available_ip_addresses'', Some ''availableIPAddresses'', AAZListType (Some AAZStrType))]"

text \<open>
  Modelled from the spec: \<open>ctx.set_var(name, data, schema_builder=...)\<close> deserializes the
  data by the schema and stores the result in the named context variable.
\<close>

definition set_var :: "AAZCommandCtx \<Rightarrow> string \<Rightarrow> json \<Rightarrow> aaz_type \<Rightarrow> error + AAZCommandCtx" where
  "set_var ctx name data schema =
     bind_err (deserialize schema data)
       (\<lambda>v. Inr (ctx\<lparr>ctx_vars := AList.update name v (ctx_vars ctx)\<rparr>))"

text \<open>
  \<open>on_200\<close>.
\<close>

definition on_200 :: "AAZCommandCtx \<Rightarrow> response \<Rightarrow> error + AAZCommandCtx" where
  "on_200 ctx resp =
     (let data = deserialize_http_content resp
      in set_var ctx ''instance'' data schema_on_200)"

text \<open>
  The property \<open>error_format\<close>, and the error path. Modelled from the spec:
  \<open>on_error\<close> maps the body \<open>{"error": {"code": ..., "message": ...}}\<close> to a
  \<open>RemoteApiError\<close> of that code and message, each \<open>None\<close> when the body has no such
  string.
\<close>

datatype error_format = MgmtErrorFormat

definition error_format :: error_format where
  "error_format = MgmtErrorFormat"

definition error_member :: "json \<Rightarrow> string \<Rightarrow> string option" where
  "error_member b k =
     (case b of
        JObj kvs \<Rightarrow>
          (case map_of kvs ''error'' of
             Some (JObj e) \<Rightarrow> (case map_of e k of Some (JStr s) \<Rightarrow> Some s | _ \<Rightarrow> None)
           | _ \<Rightarrow> None)
      | _ \<Rightarrow> None)"

definition on_error :: "error_format \<Rightarrow> response \<Rightarrow> error + AAZCommandCtx" where
  "on_error fmt resp =
     (case fmt of
        MgmtErrorFormat \<Rightarrow>
          Inl (RemoteApiError (error_member (body resp) ''code'')
                 (error_member (body resp) ''message'')))"

text \<open>
  \<open>__call__\<close>: build the request, send it through the injected client, and dispatch on
  the status code.
\<close>

definition VirtualNetworksCheckIPAddressAvailability ::
  "(request \<Rightarrow> error + response) \<Rightarrow> AAZCommandCtx \<Rightarrow> error + AAZCommandCtx" where
  "VirtualNetworksCheckIPAddressAvailability send_request ctx =
     bind_err (make_request ctx)
       (\<lambda>request. bind_err (send_request request)
       (\<lambda>http_response.
          if status_code http_response \<in> set [200] then on_200 ctx http_response
          else on_error error_format http_response))"

subsection \<open>The command CheckIpAddress\<close>

text \<open>
  The steps of an invocation. A step records itself when it is entered, and returns the
  events it recorded together with its result or the error it raised.
\<close>

datatype event =
    Ev_pre_operations
  | Ev_operation string
  | Ev_post_operations
  | Ev_output

type_synonym 'a step = "event list \<times> (error + 'a)"

text \<open>
  One statement after another: the second step starts from what the first returned, and
  its events follow those of the first; an exception of the first step ends the sequence,
  and the second step is not entered.
\<close>

definition then_step :: "'a step \<Rightarrow> ('a \<Rightarrow> 'b step) \<Rightarrow> 'b step" where
  "then_step s f =
     (case s of
        (evs, Inl e) \<Rightarrow> (evs, Inl e)
      | (evs, Inr x) \<Rightarrow> (case f x of (evs', r) \<Rightarrow> (evs @ evs', r)))"

text \<open>
  The two hooks of \<open>CheckIpAddress\<close>: entering the hook is recorded; the body is \<open>pass\<close>.
\<close>

definition pre_operations :: "AAZCommandCtx \<Rightarrow> AAZCommandCtx step" where
  "pre_operations ctx = ([Ev_pre_operations], Inr ctx)"

definition post_operations :: "AAZCommandCtx \<Rightarrow> AAZCommandCtx step" where
  "post_operations ctx = ([Ev_post_operations], Inr ctx)"

text \<open>
  \<open>self.VirtualNetworksCheckIPAddressAvailability(ctx=self.ctx)()\<close>: the call of the
  operation as a step; entering it is recorded, and its result is that of \<open>__call__\<close>.
\<close>

definition call_VirtualNetworksCheckIPAddressAvailability ::
  "(request \<Rightarrow> error + response) \<Rightarrow> AAZCommandCtx \<Rightarrow> AAZCommandCtx step" where
  "call_VirtualNetworksCheckIPAddressAvailability send_request ctx =
     ([Ev_operation ''VirtualNetworksCheckIPAddressAvailability''],
      VirtualNetworksCheckIPAddressAvailability send_request ctx)"

text \<open>
  \<open>_execute_operations\<close>: three statements in sequence. \<open>self.pre_operations()\<close> and
  \<open>self.post_operations()\<close> are calls of methods of \<open>self\<close>, which a registered callback
  or a subclass may replace, so the two hooks are parameters; for \<open>CheckIpAddress\<close> itself
  they are the two hooks above.
\<close>

definition execute_operations ::
  "(AAZCommandCtx \<Rightarrow> AAZCommandCtx step) \<Rightarrow> (AAZCommandCtx \<Rightarrow> AAZCommandCtx step)
     \<Rightarrow> (request \<Rightarrow> error + response) \<Rightarrow> AAZCommandCtx \<Rightarrow> AAZCommandCtx step" where
  "execute_operations pre post send_request ctx =
     then_step (pre ctx)
       (\<lambda>ctx1. then_step (call_VirtualNetworksCheckIPAddressAvailability send_request ctx1)
       (\<lambda>ctx2. post ctx2))"

definition CheckIpAddress_execute_operations ::
  "(request \<Rightarrow> error + response) \<Rightarrow> AAZCommandCtx \<Rightarrow> AAZCommandCtx step" where
  "CheckIpAddress_execute_operations send_request ctx =
     execute_operations pre_operations post_operations send_request ctx"

text \<open>
  \<open>_output\<close>: reading \<open>self.ctx.vars.instance\<close> when no such variable was set is an
  \<open>AttributeError\<close>.
\<close>

definition CheckIpAddress_output :: "AAZCommandCtx \<Rightarrow> error + json" where
  "CheckIpAddress_output ctx =
     (case map_of (ctx_vars ctx) ''instance'' of
        None \<Rightarrow> Inl (AttributeError ''instance'')
      | Some instance \<Rightarrow> Inr (deserialize_output instance True))"

text \<open>
  How an invocation ends.
\<close>

datatype outcome = Completed json | Failed "error list"

text \<open>
  Modelled from the spec: \<open>AAZCommand._handler\<close>, the step from Unvalidated to
  ArgsValidated: it builds and validates the arguments and creates the context; a failure
  ends the invocation with the validation errors.
\<close>

definition super_handler ::
  "AAZArg \<Rightarrow> string option \<Rightarrow> (string \<times> string) list \<Rightarrow> error list + AAZCommandCtx" where
  "super_handler rg sub command_args =
     (case build (args_schema rg) command_args of
        Inl errs \<Rightarrow> Inl errs
      | Inr a \<Rightarrow> Inr \<lparr>ctx_args = a, ctx_subscription_id = sub, ctx_vars = []\<rparr>)"

text \<open>
  The output step: entering \<open>_output\<close> is recorded.
\<close>

definition output_step :: "AAZCommandCtx \<Rightarrow> json step" where
  "output_step ctx = ([Ev_output], CheckIpAddress_output ctx)"

text \<open>
  \<open>_handler\<close>: the framework's handler, then \<open>self._execute_operations()\<close>, then
  \<open>return self._output()\<close>.
\<close>

definition CheckIpAddress_handler ::
  "AAZArg \<Rightarrow> string option \<Rightarrow> (request \<Rightarrow> error + response) \<Rightarrow> (string \<times> string) list
     \<Rightarrow> event list \<times> outcome" where
  "CheckIpAddress_handler rg sub send_request command_args =
     (case super_handler rg sub command_args of
        Inl errs \<Rightarrow> ([], Failed errs)
      | Inr ctx \<Rightarrow>
          (case then_step (CheckIpAddress_execute_operations send_request ctx) output_step of
             (evs, Inl e) \<Rightarrow> (evs, Failed [e])
           | (evs, Inr result) \<Rightarrow> (evs, Completed result)))"

subsection \<open>The class-level caches\<close>

text \<open>
  The two schema builders memoize in class attributes. Objects live in a heap and are
  known by their address, so that being the same object is having the same address; the
  class attributes \<open>_args_schema\<close> and \<open>_schema_on_200\<close> hold an address or \<open>None\<close>.
\<close>

datatype pyobj = AAZArgumentsSchema "(string \<times> AAZArg) list" | AAZType aaz_type

record class_state =
  heap :: "pyobj list"
  cls_args_schema :: "nat option"
  cls_schema_on_200 :: "nat option"

text \<open>
  A constructor call allocates a new object at a fresh address.
\<close>

definition alloc :: "pyobj \<Rightarrow> class_state \<Rightarrow> nat \<times> class_state" where
  "alloc obj st = (length (heap st), st\<lparr>heap := heap st @ [obj]\<rparr>)"

text \<open>
  Attribute assignment on a stored schema object: an argument of an arguments schema, a
  field of an object type, and the \<open>Element\<close> of a list-typed field.
\<close>

definition set_arg :: "nat \<Rightarrow> string \<Rightarrow> AAZArg \<Rightarrow> class_state \<Rightarrow> class_state" where
  "set_arg r name arg st =
     (if r < length (heap st) then
        (case heap st ! r of
           AAZArgumentsSchema fs \<Rightarrow>
             st\<lparr>heap := (heap st)[r := AAZArgumentsSchema (AList.update name arg fs)]\<rparr>
         | _ \<Rightarrow> st)
      else st)"

definition set_field ::
  "nat \<Rightarrow> string \<Rightarrow> string option \<Rightarrow> aaz_type \<Rightarrow> class_state \<Rightarrow> class_state" where
  "set_field r name serialized_name t st =
     (if r < length (heap st) then
        (case heap st ! r of
           AAZType (AAZObjectType fs) \<Rightarrow>
             st\<lparr>heap := (heap st)[r :=
                   AAZType (AAZObjectType (AList.update name (serialized_name, t) fs))]\<rparr>
         | _ \<Rightarrow> st)
      else st)"

definition set_Element :: "nat \<Rightarrow> string \<Rightarrow> aaz_type \<Rightarrow> class_state \<Rightarrow> class_state" where
  "set_Element r name elem st =
     (if r < length (heap st) then
        (case heap st ! r of
           AAZType (AAZObjectType fs) \<Rightarrow>
             (case map_of fs name of
                Some (serialized_name, AAZListType e) \<Rightarrow>
                  st\<lparr>heap := (heap st)[r :=
                        AAZType (AAZObjectType
                          (AList.update name (serialized_name, AAZListType (Some elem)) fs))]\<rparr>
              | _ \<Rightarrow> st)
         | _ \<Rightarrow> st)
      else st)"

text \<open>
  \<open>CheckIpAddress._build_arguments_schema\<close>. Modelled from the spec:
  \<open>super()._build_arguments_schema\<close> returns a new, empty arguments schema.
\<close>

definition CheckIpAddress_build_arguments_schema ::
  "AAZArg \<Rightarrow> class_state \<Rightarrow> nat \<times> class_state" where
  "CheckIpAddress_build_arguments_schema AAZResourceGroupNameArg st =
     (case cls_args_schema st of
        Some r \<Rightarrow> (r, st)
      | None \<Rightarrow>
          (let (r, st1) = alloc (AAZArgumentsSchema []) st;
               st2 = st1\<lparr>cls_args_schema := Some r\<rparr>;
               st3 = set_arg r ''resource_group''
                       (AAZResourceGroupNameArg\<lparr>arg_required := True\<rparr>) st2;
               st4 = set_arg r ''name'' CheckIpAddress_arg_name st3;
               st5 = set_arg r ''ip_address'' CheckIpAddress_arg_ip_address st4
           in (r, st5)))"

text \<open>
  \<open>VirtualNetworksCheckIPAddressAvailability._build_schema_on_200\<close>.
\<close>

definition build_schema_on_200 :: "class_state \<Rightarrow> nat \<times> class_state" where
  "build_schema_on_200 st =
     (case cls_schema_on_200 st of
        Some r \<Rightarrow> (r, st)
      | None \<Rightarrow>
          (let (r, st1) = alloc (AAZType (AAZObjectType [])) st;
               st2 = st1\<lparr>cls_schema_on_200 := Some r\<rparr>;
               st3 = set_field r ''available'' None AAZBoolType st2;
               st4 = set_field r ''available_ip_addresses'' (Some ''availableIPAddresses'')
                       (AAZListType None) st3;
               st5 = set_Element r ''available_ip_addresses'' AAZStrType st4
           in (r, st5)))"

section \<open>Properties of profile/custom.py\<close>

text \<open>
  C8. For every value of the subscription argument, \<open>None\<close> and the empty string
  included, \<open>set_active_subscription\<close> constructs the profile and calls
  \<open>profile.set_active_subscription(subscription)\<close>, returning what that call returns; the
  \<open>CLIError\<close> of the guard is never the result of the guard itself, since the guard
  tests the builtin \<open>id\<close>, which is always true.
\<close>

theorem set_active_subscription_guard_unreachable:
  "set_active_subscription prof subscription =
     ([Profile_init, Call_set_active_subscription subscription],
      profile_set_active_subscription prof subscription)"
  by (simp add: set_active_subscription_def)

theorem set_active_subscription_guard_unreachable_witness:
  "(\<forall>prof. set_active_subscription prof PyNone =
      ([Profile_init, Call_set_active_subscription PyNone],
       profile_set_active_subscription prof PyNone))
   \<and> (\<forall>prof. set_active_subscription prof (PyStr []) =
      ([Profile_init, Call_set_active_subscription (PyStr [])],
       profile_set_active_subscription prof (PyStr [])))"
  by (intro conjI allI set_active_subscription_guard_unreachable)

text \<open>
  The loop body of \<open>list_subscriptions\<close>: afterwards the entry has the key \<open>cloudName\<close>,
  holding what \<open>environmentName\<close> held (\<open>None\<close> when it had none), it has no key
  \<open>environmentName\<close>, and every other key is as it was.
\<close>

lemma rename_environment_cloudName:
  "map_of (rename_environment sub) ''cloudName'' = Some (dict_get ''environmentName'' sub)"
  by (simp add: rename_environment_def dict_pop_def dict_set_def dict_get_def
      AList.update_conv' split: option.splits)

lemma rename_environment_environmentName:
  "map_of (rename_environment sub) ''environmentName'' = None"
  by (simp add: rename_environment_def dict_pop_def dict_set_def
      AList.update_conv' AList.delete_conv' split: option.splits)

lemma rename_environment_other:
  "k \<noteq> ''cloudName'' \<Longrightarrow> k \<noteq> ''environmentName'' \<Longrightarrow>
   map_of (rename_environment sub) k = map_of sub k"
  by (simp add: rename_environment_def dict_pop_def dict_set_def
      AList.update_conv' AList.delete_conv' split: option.splits)

lemma dict_get_Enabled:
  "dict_get ''state'' s = PyStr ''Enabled'' \<longleftrightarrow> map_of s ''state'' = Some (PyStr ''Enabled'')"
  by (simp add: dict_get_def split: option.splits)

lemma filter_length_eq: "length (filter P xs) = length xs \<Longrightarrow> filter P xs = xs"
  by (metis filter_True length_filter_le length_filter_less linorder_neq_iff not_less)

text \<open>
  What \<open>list_subscriptions\<close> returns: when the filter drops nothing, the unfiltered list
  it returns is the filtered one.
\<close>

lemma list_subscriptions_value:
  assumes "load_subscriptions all refresh = Inr loaded"
  shows "list_subscriptions load_subscriptions all refresh =
           Inr (if truthy all then map rename_environment loaded
                else filter (\<lambda>s. map_of s ''state'' = Some (PyStr ''Enabled''))
                       (map rename_environment loaded))"
  using assms
    filter_length_eq[of "\<lambda>s. dict_get ''state'' s = PyStr ''Enabled''"
      "map rename_environment loaded"]
  by (auto simp: list_subscriptions_def Let_def dict_get_Enabled)

lemma rename_environment_has_cloudName:
  "''cloudName'' \<in> fst ` set (rename_environment orig)"
proof -
  have "map_of (rename_environment orig) ''cloudName'' \<noteq> None"
    by (simp only: rename_environment_cloudName) simp
  then show ?thesis
    by (simp only: map_of_eq_None_iff not_not)
qed

lemma rename_environment_no_environmentName:
  "''environmentName'' \<notin> fst ` set (rename_environment orig)"
  by (simp only: map_of_eq_None_iff[symmetric] rename_environment_environmentName)

text \<open>
  C10. When the account store returns the list \<open>loaded\<close>, \<open>list_subscriptions\<close> returns
  a list \<open>subs\<close> in which every entry comes from a loaded entry \<open>orig\<close>, has the key
  \<open>cloudName\<close> holding what \<open>environmentName\<close> held in \<open>orig\<close> (\<open>None\<close> when \<open>orig\<close> had no
  such key) and has no key \<open>environmentName\<close>. When \<open>all\<close> is false, every returned entry
  has \<open>state\<close> equal to \<open>'Enabled'\<close>, and the result is exactly the loaded entries in
  that state: the others are filtered out.
\<close>

theorem list_subscriptions_entries:
  assumes "load_subscriptions all refresh = Inr loaded"
  shows "\<exists>subs. list_subscriptions load_subscriptions all refresh = Inr subs
           \<and> (\<forall>s \<in> set subs.
                 (\<exists>orig \<in> set loaded. s = rename_environment orig
                    \<and> map_of s ''cloudName'' = Some (dict_get ''environmentName'' orig))
                 \<and> ''cloudName'' \<in> fst ` set s
                 \<and> ''environmentName'' \<notin> fst ` set s
                 \<and> (\<not> truthy all \<longrightarrow> map_of s ''state'' = Some (PyStr ''Enabled'')))
           \<and> (\<not> truthy all \<longrightarrow>
                 subs = filter (\<lambda>s. map_of s ''state'' = Some (PyStr ''Enabled''))
                          (map rename_environment loaded))"
proof -
  define enabled :: "pydict \<Rightarrow> bool"
    where "enabled = (\<lambda>s. map_of s ''state'' = Some (PyStr ''Enabled''))"
  define subs where "subs = (if truthy all then map rename_environment loaded
               else filter enabled (map rename_environment loaded))"
  have res: "list_subscriptions load_subscriptions all refresh = Inr subs"
    unfolding subs_def enabled_def using assms by (rule list_subscriptions_value)
  have entry: "(\<exists>orig \<in> set loaded. s = rename_environment orig
                    \<and> map_of s ''cloudName'' = Some (dict_get ''environmentName'' orig))
                 \<and> ''cloudName'' \<in> fst ` set s
                 \<and> ''environmentName'' \<notin> fst ` set s
                 \<and> (\<not> truthy all \<longrightarrow> enabled s)" if "s \<in> set subs" for s
  proof -
    from that have "s \<in> set (map rename_environment loaded)"
      unfolding subs_def by (cases "truthy all") simp_all
    then obtain orig where orig: "orig \<in> set loaded" "s = rename_environment orig"
      by auto
    have "\<exists>orig \<in> set loaded. s = rename_environment orig
                    \<and> map_of s ''cloudName'' = Some (dict_get ''environmentName'' orig)"
      using orig rename_environment_cloudName by blast
    moreover have "''cloudName'' \<in> fst ` set s"
      unfolding orig(2) by (rule rename_environment_has_cloudName)
    moreover have "''environmentName'' \<notin> fst ` set s"
      unfolding orig(2) by (rule rename_environment_no_environmentName)
    moreover have "\<not> truthy all \<longrightarrow> enabled s"
      using that unfolding subs_def by (cases "truthy all") simp_all
    ultimately show ?thesis by blast
  qed
  have filtered: "\<not> truthy all \<longrightarrow> subs = filter enabled (map rename_environment loaded)"
    unfolding subs_def by simp
  from res entry filtered show ?thesis
    unfolding enabled_def by blast
qed

theorem list_subscriptions_entries_witness:
  "(\<lambda>_ _. Inr [[(''id'', PyStr ''s1''), (''environmentName'', PyStr ''AzureCloud''),
                 (''state'', PyStr ''Enabled'')],
                [(''id'', PyStr ''s2''), (''state'', PyStr ''Disabled'')]])
      (PyBool False) (PyBool False)
     = (Inr [[(''id'', PyStr ''s1''), (''environmentName'', PyStr ''AzureCloud''),
              (''state'', PyStr ''Enabled'')],
             [(''id'', PyStr ''s2''), (''state'', PyStr ''Disabled'')]] :: error + pydict list)
   \<and> list_subscriptions
       (\<lambda>_ _. Inr [[(''id'', PyStr ''s1''), (''environmentName'', PyStr ''AzureCloud''),
                     (''state'', PyStr ''Enabled'')],
                    [(''id'', PyStr ''s2''), (''state'', PyStr ''Disabled'')]])
       (PyBool False) (PyBool False)
     = Inr [[(''id'', PyStr ''s1''), (''state'', PyStr ''Enabled''),
             (''cloudName'', PyStr ''AzureCloud'')]]"
proof -
  let ?loaded = "[[(''id'', PyStr ''s1''), (''environmentName'', PyStr ''AzureCloud''),
                   (''state'', PyStr ''Enabled'')],
                  [(''id'', PyStr ''s2''), (''state'', PyStr ''Disabled'')]]"
  let ?load = "\<lambda>(_::pyval) (_::pyval). (Inr ?loaded :: error + pydict list)"
  have h: "?load (PyBool False) (PyBool False) = Inr ?loaded" by simp
  from list_subscriptions_entries[of ?load "PyBool False" "PyBool False" ?loaded, OF h]
  obtain subs where subs: "list_subscriptions ?load (PyBool False) (PyBool False) = Inr subs"
    and filtered: "\<not> truthy (PyBool False) \<longrightarrow>
       subs = filter (\<lambda>s. map_of s ''state'' = Some (PyStr ''Enabled''))
                (map rename_environment ?loaded)"
    by blast
  from filtered have "subs = [[(''id'', PyStr ''s1''), (''state'', PyStr ''Enabled''),
             (''cloudName'', PyStr ''AzureCloud'')]]"
    by (simp add: rename_environment_def dict_pop_def dict_set_def)
  with subs h show ?thesis by simp
qed

text \<open>
  C9. \<open>login\<close> raises a usage-error \<open>CLIError\<close>, before the profile is constructed or
  called, whenever the arguments are inconsistent: \<open>identity\<close> with any of \<open>password\<close>,
  \<open>service_principal\<close>, \<open>tenant\<close>; \<open>use_device_code\<close> with any of \<open>password\<close>,
  \<open>service_principal\<close>, \<open>username\<close>, \<open>identity\<close>; \<open>use_cert_sn_issuer\<close> without
  \<open>service_principal\<close>; \<open>service_principal\<close> without \<open>username\<close>. An argument is set when
  it is true in Python's sense, which is what the code tests: \<open>None\<close>, \<open>False\<close> and the
  empty string are unset.
\<close>

theorem login_usage_errors:
  assumes "truthy (identity a)
             \<and> (truthy (password a) \<or> truthy (service_principal a) \<or> truthy (tenant a))
         \<or> truthy (use_device_code a)
             \<and> (truthy (password a) \<or> truthy (service_principal a) \<or> truthy (username a)
                \<or> truthy (identity a))
         \<or> truthy (use_cert_sn_issuer a) \<and> \<not> truthy (service_principal a)
         \<or> truthy (service_principal a) \<and> \<not> truthy (username a)"
  shows "\<exists>m. login env prof a = ([], Inl (CLIError m)) \<and> take 12 m = ''usage error:''"
  using assms by (auto simp: login_def py_any_def)

theorem login_usage_errors_witness:
  "(\<forall>env prof. \<exists>m.
      login env prof
        \<lparr>username = PyNone, password = PyStr ''secret'', service_principal = PyNone,
         tenant = PyNone, allow_no_subscriptions = PyBool False, identity = PyBool True,
         use_device_code = PyBool False, use_cert_sn_issuer = PyNone, scopes = PyNone,
         client_assertion = PyNone\<rparr> = ([], Inl (CLIError m))
      \<and> take 12 m = ''usage error:'')
   \<and> (\<forall>env prof. \<exists>m.
      login env prof
        \<lparr>username = PyStr ''me'', password = PyNone, service_principal = PyNone,
         tenant = PyNone, allow_no_subscriptions = PyBool False, identity = PyBool False,
         use_device_code = PyBool True, use_cert_sn_issuer = PyNone, scopes = PyNone,
         client_assertion = PyNone\<rparr> = ([], Inl (CLIError m))
      \<and> take 12 m = ''usage error:'')
   \<and> (\<forall>env prof. \<exists>m.
      login env prof
        \<lparr>username = PyStr ''me'', password = PyNone, service_principal = PyNone,
         tenant = PyNone, allow_no_subscriptions = PyBool False, identity = PyBool False,
         use_device_code = PyBool False, use_cert_sn_issuer = PyBool True, scopes = PyNone,
         client_assertion = PyNone\<rparr> = ([], Inl (CLIError m))
      \<and> take 12 m = ''usage error:'')
   \<and> (\<forall>env prof. \<exists>m.
      login env prof
        \<lparr>username = PyNone, password = PyNone, service_principal = PyBool True,
         tenant = PyNone, allow_no_subscriptions = PyBool False, identity = PyBool False,
         use_device_code = PyBool False, use_cert_sn_issuer = PyNone, scopes = PyNone,
         client_assertion = PyNone\<rparr> = ([], Inl (CLIError m))
      \<and> take 12 m = ''usage error:'')"
  by (intro conjI allI login_usage_errors) simp_all

text \<open>
  An empty password is not a set one: with \<open>identity\<close> and \<open>password = ''\<close> the check
  passes and the profile is called.
\<close>

lemma login_identity_empty_password:
  "login env prof
     \<lparr>username = PyNone, password = PyStr [], service_principal = PyNone,
      tenant = PyNone, allow_no_subscriptions = PyBool False, identity = PyBool True,
      use_device_code = PyBool False, use_cert_sn_issuer = PyNone, scopes = PyNone,
      client_assertion = PyNone\<rparr>
   = (if in_cloud_console env
      then ([Profile_init, Call_login_in_cloud_shell],
            map_sum id Some (profile_login_in_cloud_shell prof))
      else ([Profile_init, Call_login_with_managed_identity PyNone (PyBool False)],
            map_sum id Some
              (profile_login_with_managed_identity prof PyNone (PyBool False))))"
  by (simp add: login_def login_body_def py_any_def)

section \<open>Properties of network/vnet/_check_ip_address.py\<close>

subsection \<open>The class-level caches\<close>

lemma cls_args_schema_set_arg [simp]: "cls_args_schema (set_arg r n a st) = cls_args_schema st"
  by (simp add: set_arg_def split: pyobj.splits)

lemma cls_schema_on_200_set_field [simp]:
  "cls_schema_on_200 (set_field r n sn t st) = cls_schema_on_200 st"
  by (simp add: set_field_def split: pyobj.splits aaz_type.splits)

lemma cls_schema_on_200_set_Element [simp]:
  "cls_schema_on_200 (set_Element r n t st) = cls_schema_on_200 st"
  by (simp add: set_Element_def split: pyobj.splits aaz_type.splits option.splits)

lemma build_arguments_schema_cached:
  "cls_args_schema (snd (CheckIpAddress_build_arguments_schema rg st))
     = Some (fst (CheckIpAddress_build_arguments_schema rg st))"
  by (simp add: CheckIpAddress_build_arguments_schema_def alloc_def Let_def split: option.splits)

lemma build_schema_on_200_cached:
  "cls_schema_on_200 (snd (build_schema_on_200 st)) = Some (fst (build_schema_on_200 st))"
  by (simp add: build_schema_on_200_def alloc_def Let_def split: option.splits)

lemma build_arguments_schema_hit:
  "cls_args_schema st = Some r \<Longrightarrow> CheckIpAddress_build_arguments_schema rg st = (r, st)"
  by (simp add: CheckIpAddress_build_arguments_schema_def)

lemma build_schema_on_200_hit:
  "cls_schema_on_200 st = Some r \<Longrightarrow> build_schema_on_200 st = (r, st)"
  by (simp add: build_schema_on_200_def)

lemma build_arguments_schema_first:
  "cls_args_schema st = None \<Longrightarrow>
   fst (CheckIpAddress_build_arguments_schema rg st) = length (heap st) \<and>
   heap (snd (CheckIpAddress_build_arguments_schema rg st))
     = heap st @ [AAZArgumentsSchema (args_schema rg)]"
  by (simp add: CheckIpAddress_build_arguments_schema_def alloc_def Let_def set_arg_def
      args_schema_def nth_append)

lemma build_schema_on_200_first:
  "cls_schema_on_200 st = None \<Longrightarrow>
   fst (build_schema_on_200 st) = length (heap st) \<and>
   heap (snd (build_schema_on_200 st)) = heap st @ [AAZType schema_on_200]"
  by (simp add: build_schema_on_200_def alloc_def Let_def set_field_def set_Element_def
      schema_on_200_def nth_append)

lemma funpow_fixed: "f x = x \<Longrightarrow> (f ^^ n) x = x"
  by (induction n) simp_all

text \<open>
  C6. Each schema builder returns the same object on every call after the first: the
  second call, and the call after any number \<open>n\<close> of further calls, returns the address
  the first call returned and leaves the class state, the object included, as the first
  call left it. The first call, made while the class attribute is \<open>None\<close>, allocates the
  schema at a fresh address, fills it and stores the address in the class attribute; a
  call made while the attribute holds an address returns that address and changes
  nothing.
\<close>

theorem schema_builders_return_cached_object:
  "CheckIpAddress_build_arguments_schema rg
     (((\<lambda>s. snd (CheckIpAddress_build_arguments_schema rg s)) ^^ n)
        (snd (CheckIpAddress_build_arguments_schema rg st)))
     = (fst (CheckIpAddress_build_arguments_schema rg st),
        snd (CheckIpAddress_build_arguments_schema rg st))
   \<and> build_schema_on_200
       (((\<lambda>s. snd (build_schema_on_200 s)) ^^ n) (snd (build_schema_on_200 st)))
     = (fst (build_schema_on_200 st), snd (build_schema_on_200 st))
   \<and> (case cls_args_schema st of
         None \<Rightarrow>
           fst (CheckIpAddress_build_arguments_schema rg st) = length (heap st)
           \<and> heap (snd (CheckIpAddress_build_arguments_schema rg st))
               = heap st @ [AAZArgumentsSchema (args_schema rg)]
           \<and> cls_args_schema (snd (CheckIpAddress_build_arguments_schema rg st))
               = Some (length (heap st))
       | Some r \<Rightarrow> CheckIpAddress_build_arguments_schema rg st = (r, st))
   \<and> (case cls_schema_on_200 st of
         None \<Rightarrow>
           fst (build_schema_on_200 st) = length (heap st)
           \<and> heap (snd (build_schema_on_200 st)) = heap st @ [AAZType schema_on_200]
           \<and> cls_schema_on_200 (snd (build_schema_on_200 st)) = Some (length (heap st))
       | Some r \<Rightarrow> build_schema_on_200 st = (r, st))"
proof -
  let ?A = "CheckIpAddress_build_arguments_schema rg"
  let ?B = "build_schema_on_200"
  have A2: "?A (snd (?A st)) = (fst (?A st), snd (?A st))"
    by (rule build_arguments_schema_hit) (rule build_arguments_schema_cached)
  have B2: "?B (snd (?B st)) = (fst (?B st), snd (?B st))"
    by (rule build_schema_on_200_hit) (rule build_schema_on_200_cached)
  have "((\<lambda>s. snd (?A s)) ^^ n) (snd (?A st)) = snd (?A st)"
    by (rule funpow_fixed) (simp add: A2)
  then have A: "?A (((\<lambda>s. snd (?A s)) ^^ n) (snd (?A st))) = (fst (?A st), snd (?A st))"
    by (simp add: A2)
  have "((\<lambda>s. snd (?B s)) ^^ n) (snd (?B st)) = snd (?B st)"
    by (rule funpow_fixed) (simp add: B2)
  then have B: "?B (((\<lambda>s. snd (?B s)) ^^ n) (snd (?B st))) = (fst (?B st), snd (?B st))"
    by (simp add: B2)
  have A1: "(case cls_args_schema st of
         None \<Rightarrow>
           fst (?A st) = length (heap st)
           \<and> heap (snd (?A st)) = heap st @ [AAZArgumentsSchema (args_schema rg)]
           \<and> cls_args_schema (snd (?A st)) = Some (length (heap st))
       | Some r \<Rightarrow> ?A st = (r, st))"
    using build_arguments_schema_first[of st rg] build_arguments_schema_cached[of rg st]
      build_arguments_schema_hit[of st _ rg]
    by (cases "cls_args_schema st") simp_all
  have B1: "(case cls_schema_on_200 st of
         None \<Rightarrow>
           fst (?B st) = length (heap st)
           \<and> heap (snd (?B st)) = heap st @ [AAZType schema_on_200]
           \<and> cls_schema_on_200 (snd (?B st)) = Some (length (heap st))
       | Some r \<Rightarrow> ?B st = (r, st))"
    using build_schema_on_200_first[of st] build_schema_on_200_cached[of st]
      build_schema_on_200_hit[of st]
    by (cases "cls_schema_on_200 st") simp_all
  from A B A1 B1 show ?thesis by (intro conjI)
qed

theorem schema_builders_return_cached_object_witness:
  "(\<forall>rg.
      CheckIpAddress_build_arguments_schema rg
        \<lparr>heap = [], cls_args_schema = None, cls_schema_on_200 = None\<rparr>
      = (0, \<lparr>heap = [AAZArgumentsSchema (args_schema rg)], cls_args_schema = Some 0,
              cls_schema_on_200 = None\<rparr>)
      \<and> CheckIpAddress_build_arguments_schema rg
          \<lparr>heap = [AAZArgumentsSchema (args_schema rg)], cls_args_schema = Some 0,
           cls_schema_on_200 = None\<rparr>
        = (0, \<lparr>heap = [AAZArgumentsSchema (args_schema rg)], cls_args_schema = Some 0,
                cls_schema_on_200 = None\<rparr>))
   \<and> build_schema_on_200 \<lparr>heap = [], cls_args_schema = None, cls_schema_on_200 = None\<rparr>
       = (0, \<lparr>heap = [AAZType schema_on_200], cls_args_schema = None,
               cls_schema_on_200 = Some 0\<rparr>)
   \<and> build_schema_on_200
         \<lparr>heap = [AAZType schema_on_200], cls_args_schema = None, cls_schema_on_200 = Some 0\<rparr>
       = (0, \<lparr>heap = [AAZType schema_on_200], cls_args_schema = None,
               cls_schema_on_200 = Some 0\<rparr>)"
proof -
  let ?init = "\<lparr>heap = [], cls_args_schema = None, cls_schema_on_200 = None\<rparr>"
  have A: "CheckIpAddress_build_arguments_schema rg ?init
      = (0, \<lparr>heap = [AAZArgumentsSchema (args_schema rg)], cls_args_schema = Some 0,
              cls_schema_on_200 = None\<rparr>)" for rg
    by (simp add: CheckIpAddress_build_arguments_schema_def alloc_def set_arg_def
        args_schema_def)
  have B: "build_schema_on_200 ?init
       = (0, \<lparr>heap = [AAZType schema_on_200], cls_args_schema = None,
               cls_schema_on_200 = Some 0\<rparr>)"
    by (simp add: build_schema_on_200_def alloc_def set_field_def set_Element_def
        schema_on_200_def)
  show ?thesis
    using schema_builders_return_cached_object[of _ 0 ?init]
    by (simp add: A B)
qed

subsection \<open>Deserialization of the response\<close>

lemma deserialize_elements_strings:
  "deserialize_elements AAZStrType (map JStr ips) = Inr (map JStr ips)"
  by (induction ips) simp_all

lemma deserialize_schema_on_200_fields:
  "deserialize schema_on_200 (JObj fs) =
     (case map_of fs ''available'' of
        None \<Rightarrow>
          (case map_of fs ''availableIPAddresses'' of
             None \<Rightarrow> Inr (JObj [])
           | Some l \<Rightarrow>
               (case deserialize (AAZListType (Some AAZStrType)) l of
                  Inl e \<Rightarrow> Inl e
                | Inr l' \<Rightarrow> Inr (JObj [(''available_ip_addresses'', l')])))
      | Some a \<Rightarrow>
          (case deserialize AAZBoolType a of
             Inl e \<Rightarrow> Inl e
           | Inr a' \<Rightarrow>
               (case map_of fs ''availableIPAddresses'' of
                  None \<Rightarrow> Inr (JObj [(''available'', a')])
                | Some l \<Rightarrow>
                    (case deserialize (AAZListType (Some AAZStrType)) l of
                       Inl e \<Rightarrow> Inl e
                     | Inr l' \<Rightarrow>
                         Inr (JObj [(''available'', a'), (''available_ip_addresses'', l')])))))"
  by (simp add: schema_on_200_def wire_name_def split: option.splits sum.splits)

lemma map_of_update_other:
  "k \<noteq> k' \<Longrightarrow> map_of (AList.update k v fs) k' = map_of fs k'"
  by (simp add: AList.update_conv')

text \<open>
  C7. A response body that has the two declared fields, \<open>available\<close> a boolean and
  \<open>availableIPAddresses\<close> a list of strings, and any other fields besides, deserializes
  without error to the object of the two declared fields under their logical names; adding
  a field \<open>k\<close> that the schema does not declare changes nothing in the result.
\<close>

theorem deserialize_ignores_undeclared_fields:
  assumes "map_of fs ''available'' = Some (JBool b)"
    and "map_of fs ''availableIPAddresses'' = Some (JArr (map JStr ips))"
    and "k \<noteq> ''available''" and "k \<noteq> ''availableIPAddresses''"
  shows "deserialize schema_on_200 (JObj (AList.update k v fs))
           = Inr (JObj [(''available'', JBool b),
                        (''available_ip_addresses'', JArr (map JStr ips))])
         \<and> deserialize schema_on_200 (JObj fs)
           = Inr (JObj [(''available'', JBool b),
                        (''available_ip_addresses'', JArr (map JStr ips))])"
proof -
  have 1: "map_of (AList.update k v fs) ''available'' = Some (JBool b)"
    using assms(1,3) by (simp add: map_of_update_other)
  have 2: "map_of (AList.update k v fs) ''availableIPAddresses'' = Some (JArr (map JStr ips))"
    using assms(2,4) by (simp add: map_of_update_other)
  show ?thesis
    by (simp only: deserialize_schema_on_200_fields 1 2 assms(1,2))
       (simp add: deserialize_elements_strings)
qed

lemma deserialize_undeclared_field_irrelevant:
  assumes "k \<noteq> ''available''" and "k \<noteq> ''availableIPAddresses''"
  shows "deserialize schema_on_200 (JObj (AList.update k v fs)) = deserialize schema_on_200 (JObj fs)"
  by (simp only: deserialize_schema_on_200_fields map_of_update_other[OF assms(1)]
      map_of_update_other[OF assms(2)])

theorem deserialize_ignores_undeclared_fields_witness:
  "deserialize schema_on_200
     (JObj [(''available'', JBool True), (''availableIPAddresses'', JArr [JStr ''10.0.0.5'']),
            (''requestId'', JStr ''r1'')])
     = Inr (JObj [(''available'', JBool True),
                  (''available_ip_addresses'', JArr [JStr ''10.0.0.5''])])"
  using deserialize_ignores_undeclared_fields[of
      "[(''available'', JBool True), (''availableIPAddresses'', JArr [JStr ''10.0.0.5''])]"
      True "[''10.0.0.5'']" "''requestId''" "JStr ''r1''"]
  by simp






lemma output_reads_only_instance:
  "map_of (ctx_vars ctx1) ''instance'' = map_of (ctx_vars ctx2) ''instance''
   \<Longrightarrow> CheckIpAddress_output ctx1 = CheckIpAddress_output ctx2"
  by (simp add: CheckIpAddress_output_def)


subsection \<open>The request and the classification of the response\<close>

lemma make_request_example:
  "make_request
     \<lparr>ctx_args = [(''resource_group'', Some ''rg1''), (''name'', Some ''vnet1''),
                  (''ip_address'', Some ''10.0.0.4'')],
      ctx_subscription_id = Some sub, ctx_vars = vs\<rparr>
   = Inr \<lparr>req_method = ''GET'',
          req_url = ''/subscriptions/'' @ sub
            @ ''/resourceGroups/rg1/providers/Microsoft.Network/virtualNetworks/vnet1/CheckIPAddressAvailability'',
          req_query = [(''ipAddress'', ''10.0.0.4''), (''api-version'', ''2017-10-01'')],
          req_headers = [(''Accept'', ''application/json'')]\<rparr>"
  by (simp add: make_request_def url_def url_parameters_def query_parameters_def
      header_parameters_def http_method_def bind_err_def serialize_url_param_def
      serialize_query_param_def serialize_header_param_def serialize_param_def get_arg_def
      dict_merge_def format_url_def)

text \<open>
  C2. For every response the operation receives, exactly one of two paths is taken: with
  status 200 the body is deserialized by the response schema and stored in \<open>instance\<close>
  (or the deserialization error is raised); with any other status the operation raises
  \<open>RemoteApiError\<close> with the code and the message decoded from the body.
\<close>

theorem operation_classifies_status:
  assumes "make_request ctx = Inr req" and "send_request req = Inr resp"
  shows "VirtualNetworksCheckIPAddressAvailability send_request ctx =
           (if status_code resp = 200
            then (case deserialize schema_on_200 (body resp) of
                    Inl e \<Rightarrow> Inl e
                  | Inr v \<Rightarrow>
                      Inr (ctx\<lparr>ctx_vars := AList.update ''instance'' v (ctx_vars ctx)\<rparr>))
            else Inl (RemoteApiError (error_member (body resp) ''code'')
                        (error_member (body resp) ''message'')))"
  using assms
  by (simp add: VirtualNetworksCheckIPAddressAvailability_def bind_err_def on_200_def
      on_error_def error_format_def set_var_def deserialize_http_content_def)

theorem operation_classifies_status_witness:
  "(\<forall>sub vs. VirtualNetworksCheckIPAddressAvailability
      (\<lambda>_. Inr \<lparr>status_code = 404,
                  body = JObj [(''error'', JObj [(''code'', JStr ''NotFound''),
                                                 (''message'', JStr ''x'')])]\<rparr>)
      \<lparr>ctx_args = [(''resource_group'', Some ''rg1''), (''name'', Some ''vnet1''),
                   (''ip_address'', Some ''10.0.0.4'')],
       ctx_subscription_id = Some sub, ctx_vars = vs\<rparr>
     = Inl (RemoteApiError (Some ''NotFound'') (Some ''x'')))
   \<and> (\<forall>sub vs. VirtualNetworksCheckIPAddressAvailability
      (\<lambda>_. Inr \<lparr>status_code = 200,
                  body = JObj [(''available'', JBool True),
                               (''availableIPAddresses'', JArr [])]\<rparr>)
      \<lparr>ctx_args = [(''resource_group'', Some ''rg1''), (''name'', Some ''vnet1''),
                   (''ip_address'', Some ''10.0.0.4'')],
       ctx_subscription_id = Some sub, ctx_vars = vs\<rparr>
     = Inr \<lparr>ctx_args = [(''resource_group'', Some ''rg1''), (''name'', Some ''vnet1''),
                   (''ip_address'', Some ''10.0.0.4'')],
       ctx_subscription_id = Some sub,
       ctx_vars = AList.update ''instance''
         (JObj [(''available'', JBool True), (''available_ip_addresses'', JArr [])]) vs\<rparr>)"
proof (intro conjI allI)
  fix sub vs
  let ?ctx = "\<lparr>ctx_args = [(''resource_group'', Some ''rg1''), (''name'', Some ''vnet1''),
                   (''ip_address'', Some ''10.0.0.4'')],
       ctx_subscription_id = Some sub, ctx_vars = vs\<rparr>"
  let ?r404 = "\<lparr>status_code = 404,
                  body = JObj [(''error'', JObj [(''code'', JStr ''NotFound''),
                                                 (''message'', JStr ''x'')])]\<rparr>"
  let ?r200 = "\<lparr>status_code = 200,
                  body = JObj [(''available'', JBool True),
                               (''availableIPAddresses'', JArr [])]\<rparr>"
  show "VirtualNetworksCheckIPAddressAvailability (\<lambda>_. Inr ?r404) ?ctx
          = Inl (RemoteApiError (Some ''NotFound'') (Some ''x''))"
    using operation_classifies_status[where send_request = "\<lambda>_. Inr ?r404" and resp = ?r404,
        OF make_request_example[of sub vs]]
    by (simp add: error_member_def)
  show "VirtualNetworksCheckIPAddressAvailability (\<lambda>_. Inr ?r200) ?ctx
          = Inr \<lparr>ctx_args = [(''resource_group'', Some ''rg1''), (''name'', Some ''vnet1''),
                   (''ip_address'', Some ''10.0.0.4'')],
       ctx_subscription_id = Some sub,
       ctx_vars = AList.update ''instance''
         (JObj [(''available'', JBool True), (''available_ip_addresses'', JArr [])]) vs\<rparr>"
    using operation_classifies_status[where send_request = "\<lambda>_. Inr ?r200" and resp = ?r200,
        OF make_request_example[of sub vs]]
    by (simp add: schema_on_200_def wire_name_def)
qed

text \<open>
  C1. With the arguments \<open>resource_group = rg1\<close>, \<open>name = vnet1\<close> and
  \<open>ip_address = 10.0.0.4\<close> and any subscription id, the operation builds a GET request
  whose URL is the template with \<open>subscriptionId\<close>, \<open>resourceGroupName\<close> and
  \<open>virtualNetworkName\<close> substituted and whose query is \<open>ipAddress=10.0.0.4\<close> followed by
  \<open>api-version=2017-10-01\<close>; the body \<open>{"available": true, "availableIPAddresses": []}\<close>
  deserializes by the response schema to \<open>{available: true, available_ip_addresses: []}\<close>;
  and with a client that answers exactly that request with status 200 and that body, the
  operations store that value in \<open>instance\<close> and the output step returns it.
\<close>

theorem check_ip_address_end_to_end:
  "make_request
     \<lparr>ctx_args = [(''resource_group'', Some ''rg1''), (''name'', Some ''vnet1''),
                  (''ip_address'', Some ''10.0.0.4'')],
      ctx_subscription_id = Some sub, ctx_vars = []\<rparr>
   = Inr \<lparr>req_method = ''GET'',
          req_url = ''/subscriptions/'' @ sub
            @ ''/resourceGroups/rg1/providers/Microsoft.Network/virtualNetworks/vnet1/CheckIPAddressAvailability'',
          req_query = [(''ipAddress'', ''10.0.0.4''), (''api-version'', ''2017-10-01'')],
          req_headers = [(''Accept'', ''application/json'')]\<rparr>
   \<and> query_string [(''ipAddress'', ''10.0.0.4''), (''api-version'', ''2017-10-01'')]
       = ''ipAddress=10.0.0.4&api-version=2017-10-01''
   \<and> deserialize schema_on_200
         (JObj [(''available'', JBool True), (''availableIPAddresses'', JArr [])])
       = Inr (JObj [(''available'', JBool True), (''available_ip_addresses'', JArr [])])
   \<and> CheckIpAddress_execute_operations
         (\<lambda>r. if r = \<lparr>req_method = ''GET'',
                      req_url = ''/subscriptions/'' @ sub
                        @ ''/resourceGroups/rg1/providers/Microsoft.Network/virtualNetworks/vnet1/CheckIPAddressAvailability'',
                      req_query = [(''ipAddress'', ''10.0.0.4''), (''api-version'', ''2017-10-01'')],
                      req_headers = [(''Accept'', ''application/json'')]\<rparr>
              then Inr \<lparr>status_code = 200,
                        body = JObj [(''available'', JBool True),
                                     (''availableIPAddresses'', JArr [])]\<rparr>
              else Inl TransportError)
         \<lparr>ctx_args = [(''resource_group'', Some ''rg1''), (''name'', Some ''vnet1''),
                      (''ip_address'', Some ''10.0.0.4'')],
          ctx_subscription_id = Some sub, ctx_vars = []\<rparr>
       = ([Ev_pre_operations, Ev_operation ''VirtualNetworksCheckIPAddressAvailability'',
           Ev_post_operations],
          Inr \<lparr>ctx_args = [(''resource_group'', Some ''rg1''), (''name'', Some ''vnet1''),
                           (''ip_address'', Some ''10.0.0.4'')],
               ctx_subscription_id = Some sub,
               ctx_vars = [(''instance'',
                            JObj [(''available'', JBool True),
                                  (''available_ip_addresses'', JArr [])])]\<rparr>)
   \<and> CheckIpAddress_output
         \<lparr>ctx_args = [(''resource_group'', Some ''rg1''), (''name'', Some ''vnet1''),
                      (''ip_address'', Some ''10.0.0.4'')],
          ctx_subscription_id = Some sub,
          ctx_vars = [(''instance'',
                       JObj [(''available'', JBool True),
                             (''available_ip_addresses'', JArr [])])]\<rparr>
       = Inr (JObj [(''available'', JBool True), (''available_ip_addresses'', JArr [])])"
proof (intro conjI)
  let ?ctx = "\<lparr>ctx_args = [(''resource_group'', Some ''rg1''), (''name'', Some ''vnet1''),
                  (''ip_address'', Some ''10.0.0.4'')],
      ctx_subscription_id = Some sub, ctx_vars = []\<rparr>"
  let ?req = "\<lparr>req_method = ''GET'',
          req_url = ''/subscriptions/'' @ sub
            @ ''/resourceGroups/rg1/providers/Microsoft.Network/virtualNetworks/vnet1/CheckIPAddressAvailability'',
          req_query = [(''ipAddress'', ''10.0.0.4''), (''api-version'', ''2017-10-01'')],
          req_headers = [(''Accept'', ''application/json'')]\<rparr>"
  show req: "make_request ?ctx = Inr ?req"
    by (rule make_request_example)
  show "query_string [(''ipAddress'', ''10.0.0.4''), (''api-version'', ''2017-10-01'')]
       = ''ipAddress=10.0.0.4&api-version=2017-10-01''"
    by simp
  show des: "deserialize schema_on_200
         (JObj [(''available'', JBool True), (''availableIPAddresses'', JArr [])])
       = Inr (JObj [(''available'', JBool True), (''available_ip_addresses'', JArr [])])"
    by (simp add: schema_on_200_def wire_name_def)
  show "CheckIpAddress_execute_operations
         (\<lambda>r. if r = ?req
              then Inr \<lparr>status_code = 200,
                        body = JObj [(''available'', JBool True),
                                     (''availableIPAddresses'', JArr [])]\<rparr>
              else Inl TransportError) ?ctx
       = ([Ev_pre_operations, Ev_operation ''VirtualNetworksCheckIPAddressAvailability'',
           Ev_post_operations],
          Inr \<lparr>ctx_args = [(''resource_group'', Some ''rg1''), (''name'', Some ''vnet1''),
                           (''ip_address'', Some ''10.0.0.4'')],
               ctx_subscription_id = Some sub,
               ctx_vars = [(''instance'',
                            JObj [(''available'', JBool True),
                                  (''available_ip_addresses'', JArr [])])]\<rparr>)"
    by (simp add: CheckIpAddress_execute_operations_def execute_operations_def then_step_def
        call_VirtualNetworksCheckIPAddressAvailability_def pre_operations_def post_operations_def
        VirtualNetworksCheckIPAddressAvailability_def bind_err_def req on_200_def set_var_def
        deserialize_http_content_def des)
  show "CheckIpAddress_output
         \<lparr>ctx_args = [(''resource_group'', Some ''rg1''), (''name'', Some ''vnet1''),
                      (''ip_address'', Some ''10.0.0.4'')],
          ctx_subscription_id = Some sub,
          ctx_vars = [(''instance'',
                       JObj [(''available'', JBool True),
                             (''available_ip_addresses'', JArr [])])]\<rparr>
       = Inr (JObj [(''available'', JBool True), (''available_ip_addresses'', JArr [])])"
    by (simp add: CheckIpAddress_output_def deserialize_output_def client_flatten_def)
qed

theorem check_ip_address_end_to_end_witness:
  "make_request
     \<lparr>ctx_args = [(''resource_group'', Some ''rg1''), (''name'', Some ''vnet1''),
                  (''ip_address'', Some ''10.0.0.4'')],
      ctx_subscription_id = Some ''sub1'', ctx_vars = []\<rparr>
   = Inr \<lparr>req_method = ''GET'',
          req_url =
            ''/subscriptions/sub1/resourceGroups/rg1/providers/Microsoft.Network/virtualNetworks/vnet1/CheckIPAddressAvailability'',
          req_query = [(''ipAddress'', ''10.0.0.4''), (''api-version'', ''2017-10-01'')],
          req_headers = [(''Accept'', ''application/json'')]\<rparr>"
  using check_ip_address_end_to_end[of "''sub1''"] by simp

subsection \<open>The order of the steps\<close>

lemma operation_success_sets_instance:
  assumes "VirtualNetworksCheckIPAddressAvailability send_request ctx = Inr ctx'"
  shows "\<exists>v. map_of (ctx_vars ctx') ''instance'' = Some v"
  using assms
  by (auto simp: VirtualNetworksCheckIPAddressAvailability_def bind_err_def on_200_def
      on_error_def set_var_def deserialize_http_content_def AList.update_conv'
      split: sum.splits if_splits error_format.splits)

text \<open>
  The sequence of \<open>_execute_operations\<close> for any two hooks: the operation starts from the
  context the first hook returned, after the events of that hook; if the operation raises,
  the second hook is not entered; if it returns, the second hook starts from the context
  the operation returned, and its events come last.
\<close>

lemma execute_operations_hooks:
  "execute_operations pre post send_request ctx =
     (case pre ctx of
        (evs1, Inl e) \<Rightarrow> (evs1, Inl e)
      | (evs1, Inr ctx1) \<Rightarrow>
          (case VirtualNetworksCheckIPAddressAvailability send_request ctx1 of
             Inl e \<Rightarrow>
               (evs1 @ [Ev_operation ''VirtualNetworksCheckIPAddressAvailability''], Inl e)
           | Inr ctx2 \<Rightarrow>
               (evs1 @ [Ev_operation ''VirtualNetworksCheckIPAddressAvailability'']
                  @ fst (post ctx2), snd (post ctx2))))"
  by (simp add: execute_operations_def then_step_def
      call_VirtualNetworksCheckIPAddressAvailability_def split: prod.splits sum.splits)

text \<open>
  C4. For every invocation whose arguments validate, the steps are entered one after the
  other in one fixed sequence, each starting from the context its predecessor returned.
  For any two hooks, the events of the first hook come first, then the operation, run on
  the context that hook returned; if the operation raises, the sequence ends there with
  its error and the second hook is not entered; otherwise the second hook follows, run on
  the context the operation returned. For \<open>CheckIpAddress\<close> with its own hooks: if the
  operation raises, whatever the error, the steps entered are \<open>pre_operations\<close> and the
  operation, in this order, and the invocation fails with that error, neither
  \<open>post_operations\<close> nor the output step being entered; if the operation returns, the
  steps are \<open>pre_operations\<close>, the operation, \<open>post_operations\<close> and the output step, in
  this order, and the invocation completes with the formatted value of \<open>instance\<close>.
\<close>

theorem execute_operations_in_order:
  assumes "super_handler rg sub command_args = Inr ctx"
  shows "execute_operations pre post send_request ctx =
           (case pre ctx of
              (evs1, Inl e) \<Rightarrow> (evs1, Inl e)
            | (evs1, Inr ctx1) \<Rightarrow>
                (case VirtualNetworksCheckIPAddressAvailability send_request ctx1 of
                   Inl e \<Rightarrow>
                     (evs1 @ [Ev_operation ''VirtualNetworksCheckIPAddressAvailability''], Inl e)
                 | Inr ctx2 \<Rightarrow>
                     (evs1 @ [Ev_operation ''VirtualNetworksCheckIPAddressAvailability'']
                        @ fst (post ctx2), snd (post ctx2))))
         \<and> ((\<exists>e. VirtualNetworksCheckIPAddressAvailability send_request ctx = Inl e
                \<and> CheckIpAddress_execute_operations send_request ctx
                    = ([Ev_pre_operations,
                        Ev_operation ''VirtualNetworksCheckIPAddressAvailability''], Inl e)
                \<and> CheckIpAddress_handler rg sub send_request command_args
                    = ([Ev_pre_operations,
                        Ev_operation ''VirtualNetworksCheckIPAddressAvailability''],
                       Failed [e]))
            \<or> (\<exists>ctx' v.
                VirtualNetworksCheckIPAddressAvailability send_request ctx = Inr ctx'
                \<and> map_of (ctx_vars ctx') ''instance'' = Some v
                \<and> CheckIpAddress_execute_operations send_request ctx
                    = ([Ev_pre_operations,
                        Ev_operation ''VirtualNetworksCheckIPAddressAvailability'',
                        Ev_post_operations], Inr ctx')
                \<and> CheckIpAddress_handler rg sub send_request command_args
                    = ([Ev_pre_operations,
                        Ev_operation ''VirtualNetworksCheckIPAddressAvailability'',
                        Ev_post_operations, Ev_output],
                       Completed (deserialize_output v True))))"
proof (rule conjI)
  show "execute_operations pre post send_request ctx =
           (case pre ctx of
              (evs1, Inl e) \<Rightarrow> (evs1, Inl e)
            | (evs1, Inr ctx1) \<Rightarrow>
                (case VirtualNetworksCheckIPAddressAvailability send_request ctx1 of
                   Inl e \<Rightarrow>
                     (evs1 @ [Ev_operation ''VirtualNetworksCheckIPAddressAvailability''], Inl e)
                 | Inr ctx2 \<Rightarrow>
                     (evs1 @ [Ev_operation ''VirtualNetworksCheckIPAddressAvailability'']
                        @ fst (post ctx2), snd (post ctx2))))"
    by (rule execute_operations_hooks)
next
  have own: "CheckIpAddress_execute_operations send_request ctx =
     (case VirtualNetworksCheckIPAddressAvailability send_request ctx of
        Inl e \<Rightarrow>
          ([Ev_pre_operations, Ev_operation ''VirtualNetworksCheckIPAddressAvailability''],
           Inl e)
      | Inr ctx2 \<Rightarrow>
          ([Ev_pre_operations, Ev_operation ''VirtualNetworksCheckIPAddressAvailability'',
            Ev_post_operations], Inr ctx2))"
    by (simp add: CheckIpAddress_execute_operations_def execute_operations_hooks
        pre_operations_def post_operations_def split: sum.splits)
  show "(\<exists>e. VirtualNetworksCheckIPAddressAvailability send_request ctx = Inl e
                \<and> CheckIpAddress_execute_operations send_request ctx
                    = ([Ev_pre_operations,
                        Ev_operation ''VirtualNetworksCheckIPAddressAvailability''], Inl e)
                \<and> CheckIpAddress_handler rg sub send_request command_args
                    = ([Ev_pre_operations,
                        Ev_operation ''VirtualNetworksCheckIPAddressAvailability''],
                       Failed [e]))
            \<or> (\<exists>ctx' v.
                VirtualNetworksCheckIPAddressAvailability send_request ctx = Inr ctx'
                \<and> map_of (ctx_vars ctx') ''instance'' = Some v
                \<and> CheckIpAddress_execute_operations send_request ctx
                    = ([Ev_pre_operations,
                        Ev_operation ''VirtualNetworksCheckIPAddressAvailability'',
                        Ev_post_operations], Inr ctx')
                \<and> CheckIpAddress_handler rg sub send_request command_args
                    = ([Ev_pre_operations,
                        Ev_operation ''VirtualNetworksCheckIPAddressAvailability'',
                        Ev_post_operations, Ev_output],
                       Completed (deserialize_output v True)))"
  proof (cases "VirtualNetworksCheckIPAddressAvailability send_request ctx")
    case (Inl e)
    with own have ex: "CheckIpAddress_execute_operations send_request ctx
                  = ([Ev_pre_operations,
                      Ev_operation ''VirtualNetworksCheckIPAddressAvailability''], Inl e)"
      by simp
    have "CheckIpAddress_handler rg sub send_request command_args
                  = ([Ev_pre_operations,
                      Ev_operation ''VirtualNetworksCheckIPAddressAvailability''], Failed [e])"
      by (simp add: CheckIpAddress_handler_def assms ex then_step_def)
    with Inl ex show ?thesis by blast
  next
    case (Inr ctx')
    from operation_success_sets_instance[OF Inr]
    obtain v where v: "map_of (ctx_vars ctx') ''instance'' = Some v" ..
    from Inr own have ex: "CheckIpAddress_execute_operations send_request ctx
                  = ([Ev_pre_operations,
                      Ev_operation ''VirtualNetworksCheckIPAddressAvailability'',
                      Ev_post_operations], Inr ctx')"
      by simp
    have "CheckIpAddress_handler rg sub send_request command_args
                  = ([Ev_pre_operations,
                      Ev_operation ''VirtualNetworksCheckIPAddressAvailability'',
                      Ev_post_operations, Ev_output], Completed (deserialize_output v True))"
      by (simp add: CheckIpAddress_handler_def assms ex then_step_def output_step_def
          CheckIpAddress_output_def v)
    with Inr v ex show ?thesis by blast
  qed
qed

text \<open>
  The order is observed: with the two hooks exchanged the events come in another order.
\<close>

lemma execute_operations_hooks_exchanged:
  "VirtualNetworksCheckIPAddressAvailability send_request ctx = Inr ctx' \<Longrightarrow>
   execute_operations post_operations pre_operations send_request ctx
     = ([Ev_post_operations, Ev_operation ''VirtualNetworksCheckIPAddressAvailability'',
         Ev_pre_operations], Inr ctx')"
  by (simp add: execute_operations_hooks pre_operations_def post_operations_def)

lemma super_handler_example:
  "super_handler
     \<lparr>arg_options = [''--resource-group'', ''-g''], arg_required = False,
      arg_help = ''Name of resource group.'', arg_id_part = Some ''resource_group'',
      arg_default = None\<rparr>
     (Some ''sub1'')
     [(''-g'', ''rg1''), (''-n'', ''vnet1''), (''--ip-address'', ''10.0.0.4'')]
   = Inr \<lparr>ctx_args = [(''resource_group'', Some ''rg1''), (''name'', Some ''vnet1''),
                       (''ip_address'', Some ''10.0.0.4'')],
           ctx_subscription_id = Some ''sub1'', ctx_vars = []\<rparr>"
  by (simp add: super_handler_def build_def args_schema_def CheckIpAddress_arg_name_def
      CheckIpAddress_arg_ip_address_def AAZStrArg_def matched_def arg_value_def)

theorem execute_operations_in_order_witness:
  "CheckIpAddress_handler
     \<lparr>arg_options = [''--resource-group'', ''-g''], arg_required = False,
      arg_help = ''Name of resource group.'', arg_id_part = Some ''resource_group'',
      arg_default = None\<rparr>
     (Some ''sub1'') (\<lambda>_. Inl TransportError)
     [(''-g'', ''rg1''), (''-n'', ''vnet1''), (''--ip-address'', ''10.0.0.4'')]
   = ([Ev_pre_operations, Ev_operation ''VirtualNetworksCheckIPAddressAvailability''],
      Failed [TransportError])
   \<and> CheckIpAddress_handler
     \<lparr>arg_options = [''--resource-group'', ''-g''], arg_required = False,
      arg_help = ''Name of resource group.'', arg_id_part = Some ''resource_group'',
      arg_default = None\<rparr>
     (Some ''sub1'')
     (\<lambda>_. Inr \<lparr>status_code = 200,
                 body = JObj [(''available'', JBool True),
                              (''availableIPAddresses'', JArr [])]\<rparr>)
     [(''-g'', ''rg1''), (''-n'', ''vnet1''), (''--ip-address'', ''10.0.0.4'')]
   = ([Ev_pre_operations, Ev_operation ''VirtualNetworksCheckIPAddressAvailability'',
       Ev_post_operations, Ev_output],
      Completed (JObj [(''available'', JBool True), (''available_ip_addresses'', JArr [])]))"
proof (intro conjI)
  let ?rg = "\<lparr>arg_options = [''--resource-group'', ''-g''], arg_required = False,
      arg_help = ''Name of resource group.'', arg_id_part = Some ''resource_group'',
      arg_default = None\<rparr>"
  let ?raw = "[(''-g'', ''rg1''), (''-n'', ''vnet1''), (''--ip-address'', ''10.0.0.4'')]"
  let ?ctx = "\<lparr>ctx_args = [(''resource_group'', Some ''rg1''), (''name'', Some ''vnet1''),
                       (''ip_address'', Some ''10.0.0.4'')],
           ctx_subscription_id = Some ''sub1'', ctx_vars = []\<rparr>"
  let ?fail = "\<lambda>_::request. (Inl TransportError :: error + response)"
  let ?ok = "\<lambda>_::request. (Inr \<lparr>status_code = 200,
                 body = JObj [(''available'', JBool True),
                              (''availableIPAddresses'', JArr [])]\<rparr> :: error + response)"
  have op_fail: "VirtualNetworksCheckIPAddressAvailability ?fail ?ctx = Inl TransportError"
    by (simp add: VirtualNetworksCheckIPAddressAvailability_def bind_err_def
        make_request_example)
  have op_ok: "VirtualNetworksCheckIPAddressAvailability ?ok ?ctx
                 = Inr (?ctx\<lparr>ctx_vars := [(''instance'',
                     JObj [(''available'', JBool True),
                           (''available_ip_addresses'', JArr [])])]\<rparr>)"
    by (simp add: VirtualNetworksCheckIPAddressAvailability_def bind_err_def
        make_request_example on_200_def set_var_def deserialize_http_content_def
        schema_on_200_def wire_name_def)
  from execute_operations_in_order[OF super_handler_example,
      of pre_operations post_operations ?fail]
  have "(\<exists>e. VirtualNetworksCheckIPAddressAvailability ?fail ?ctx = Inl e
           \<and> CheckIpAddress_handler ?rg (Some ''sub1'') ?fail ?raw
               = ([Ev_pre_operations,
                   Ev_operation ''VirtualNetworksCheckIPAddressAvailability''], Failed [e]))
        \<or> (\<exists>ctx'. VirtualNetworksCheckIPAddressAvailability ?fail ?ctx = Inr ctx')"
    by blast
  with op_fail
  show "CheckIpAddress_handler ?rg (Some ''sub1'') ?fail ?raw
          = ([Ev_pre_operations, Ev_operation ''VirtualNetworksCheckIPAddressAvailability''],
             Failed [TransportError])"
    by auto
  from execute_operations_in_order[OF super_handler_example,
      of pre_operations post_operations ?ok]
  have "(\<exists>e. VirtualNetworksCheckIPAddressAvailability ?ok ?ctx = Inl e)
        \<or> (\<exists>ctx' v. VirtualNetworksCheckIPAddressAvailability ?ok ?ctx = Inr ctx'
             \<and> map_of (ctx_vars ctx') ''instance'' = Some v
             \<and> CheckIpAddress_handler ?rg (Some ''sub1'') ?ok ?raw
                = ([Ev_pre_operations,
                    Ev_operation ''VirtualNetworksCheckIPAddressAvailability'',
                    Ev_post_operations, Ev_output], Completed (deserialize_output v True)))"
    by blast
  with op_ok
  show "CheckIpAddress_handler ?rg (Some ''sub1'') ?ok ?raw
          = ([Ev_pre_operations, Ev_operation ''VirtualNetworksCheckIPAddressAvailability'',
              Ev_post_operations, Ev_output],
             Completed (JObj [(''available'', JBool True),
                              (''available_ip_addresses'', JArr [])]))"
    by (auto simp: deserialize_output_def client_flatten_def)
qed

subsection \<open>Validation of the arguments\<close>

lemma matched_iff:
  "matched a raw \<longleftrightarrow> (\<exists>k \<in> set (arg_options a). k \<in> fst ` set raw)"
  by (force simp: matched_def list_ex_iff)

lemma matched_required [simp]: "matched (a\<lparr>arg_required := r\<rparr>) raw = matched a raw"
  by (simp add: matched_def)

lemma missing_names_of_unknown:
  "[n. MissingRequiredArgument n \<leftarrow> [UnknownArgument k. (k, v) \<leftarrow> raw, P k]] = []"
  by (induction raw) auto

lemma build_errors:
  "build (args_schema rg) raw =
     (let errs = (if matched rg raw then [] else [MissingRequiredArgument ''resource_group''])
                 @ (if matched CheckIpAddress_arg_name raw then []
                    else [MissingRequiredArgument ''name''])
                 @ [UnknownArgument k. (k, v) \<leftarrow> raw,
                      \<not> list_ex (\<lambda>(n, a). k \<in> set (arg_options a)) (args_schema rg)]
      in if errs = [] then Inr [(n, arg_value a raw). (n, a) \<leftarrow> args_schema rg]
         else Inl errs)"
  by (simp add: build_def args_schema_def Let_def CheckIpAddress_arg_name_def
      CheckIpAddress_arg_ip_address_def AAZStrArg_def)

text \<open>
  C3. When the raw arguments supply no option of \<open>resource_group\<close> or no option of
  \<open>name\<close>, validation fails; the errors name exactly the required arguments that are
  missing, \<open>resource_group\<close> before \<open>name\<close>, two errors when both are missing, and
  never \<open>ip_address\<close>, which is optional; and the invocation ends with these errors
  without entering any step.
\<close>

theorem missing_required_arguments_collected:
  assumes "\<not> matched rg raw \<or> \<not> matched CheckIpAddress_arg_name raw"
  shows "\<exists>errs. build (args_schema rg) raw = Inl errs
           \<and> [n. MissingRequiredArgument n \<leftarrow> errs]
               = (if matched rg raw then [] else [''resource_group''])
                 @ (if matched CheckIpAddress_arg_name raw then [] else [''name''])
           \<and> CheckIpAddress_handler rg sub send_request raw = ([], Failed errs)"
proof -
  define unknown where "unknown = [UnknownArgument k. (k, v) \<leftarrow> raw,
                      \<not> list_ex (\<lambda>(n, a). k \<in> set (arg_options a)) (args_schema rg)]"
  define errs where "errs =
     (if matched rg raw then [] else [MissingRequiredArgument ''resource_group''])
     @ (if matched CheckIpAddress_arg_name raw then [] else [MissingRequiredArgument ''name''])
     @ unknown"
  from assms have ne: "errs \<noteq> []" by (auto simp: errs_def)
  have b: "build (args_schema rg) raw = Inl errs"
    using ne unfolding errs_def unknown_def by (simp only: build_errors Let_def if_False)
  have u: "[n. MissingRequiredArgument n \<leftarrow> unknown] = []"
    unfolding unknown_def by (rule missing_names_of_unknown)
  have m: "[n. MissingRequiredArgument n \<leftarrow> errs]
               = (if matched rg raw then [] else [''resource_group''])
                 @ (if matched CheckIpAddress_arg_name raw then [] else [''name''])"
    using u by (simp add: errs_def)
  have h: "CheckIpAddress_handler rg sub send_request raw = ([], Failed errs)"
    by (simp add: CheckIpAddress_handler_def super_handler_def b)
  from b m h show ?thesis by blast
qed

theorem missing_required_arguments_collected_witness:
  "\<forall>sub send_request.
     CheckIpAddress_handler
       \<lparr>arg_options = [''--resource-group'', ''-g''], arg_required = False,
        arg_help = ''Name of resource group.'', arg_id_part = Some ''resource_group'',
        arg_default = None\<rparr>
       sub send_request [(''--ip-address'', ''10.0.0.4'')]
     = ([], Failed [MissingRequiredArgument ''resource_group'',
                    MissingRequiredArgument ''name''])"
proof (intro allI)
  fix sub send_request
  let ?rg = "\<lparr>arg_options = [''--resource-group'', ''-g''], arg_required = False,
        arg_help = ''Name of resource group.'', arg_id_part = Some ''resource_group'',
        arg_default = None\<rparr>"
  let ?raw = "[(''--ip-address'', ''10.0.0.4'')]"
  have h: "\<not> matched ?rg ?raw \<or> \<not> matched CheckIpAddress_arg_name ?raw"
    by (simp add: matched_def)
  have b: "build (args_schema ?rg) ?raw
             = Inl [MissingRequiredArgument ''resource_group'', MissingRequiredArgument ''name'']"
    by (simp add: build_def args_schema_def CheckIpAddress_arg_name_def
        CheckIpAddress_arg_ip_address_def AAZStrArg_def matched_def)
  from missing_required_arguments_collected[OF h, of sub send_request] b
  show "CheckIpAddress_handler ?rg sub send_request ?raw
     = ([], Failed [MissingRequiredArgument ''resource_group'',
                    MissingRequiredArgument ''name''])"
    by auto
qed

end
